theory Spec2Isabelle
  imports Main
begin

section \<open>Python values and errors\<close>

text \<open>
  The rules engine of mtga-coach is Python. Integers are unbounded (\<open>int\<close>, or \<open>nat\<close> for
  a count that is only ever incremented from zero) and an exception is a value of
  \<open>py_error\<close>. A string is a list of characters, each standing for the code point of
  its number, U+0000 to U+00FF; the string methods below are Python's on such text.
\<close>

datatype py_error = AttributeError | NameError | ValueError

text \<open>
  \<open>str.isdigit\<close>: at least one character, and every character a digit. Beside the ten
  decimal digits the superscripts two, three and one (U+00B2, U+00B3, U+00B9) are
  digits.
\<close>

definition ascii_digit :: "char \<Rightarrow> bool" where
  "ascii_digit c = (48 \<le> (of_char c :: nat) \<and> (of_char c :: nat) \<le> 57)"

definition is_digit :: "char \<Rightarrow> bool" where
  "is_digit c = (ascii_digit c \<or> c = CHR 0xB2 \<or> c = CHR 0xB3 \<or> c = CHR 0xB9)"

definition isdigit :: "string \<Rightarrow> bool" where
  "isdigit s = (s \<noteq> [] \<and> list_all is_digit s)"

definition int_of_str :: "string \<Rightarrow> nat" where
  "int_of_str s = foldl (\<lambda>a c. 10 * a + ((of_char c :: nat) - 48)) 0 s"

text \<open>
  \<open>int(s)\<close> for a string without sign, blanks or underscores: the value of a non-empty
  run of decimal digits, and \<open>ValueError\<close> for anything else. A superscript digit is no
  decimal digit, and CPython refuses a run of more than 4300 digits (the default of
  \<open>sys.int_info.default_max_str_digits\<close>).
\<close>

definition py_int :: "string \<Rightarrow> py_error + nat" where
  "py_int s =
     (if s = [] \<or> \<not> list_all ascii_digit s \<or> 4300 < length s then Inl ValueError
      else Inr (int_of_str s))"

text \<open>
  \<open>str.upper\<close>: the letters a to z and the accented small letters U+00E0 to U+00FE
  (the division sign U+00F7 apart) move down by 32, and the sharp s (U+00DF) becomes
  \<open>SS\<close>. Two capitals lie outside the range of a character: U+0178, of the y with
  diaeresis (U+00FF), and U+039C, of the micro sign (U+00B5). In upper-cased text the
  characters 255 and 181 stand for these two capitals; no other character of upper-cased
  text has these numbers.
\<close>

definition upper_char :: "char \<Rightarrow> string" where
  "upper_char c =
     (if (97 \<le> (of_char c :: nat) \<and> (of_char c :: nat) \<le> 122)
        \<or> (224 \<le> (of_char c :: nat) \<and> (of_char c :: nat) \<le> 254 \<and> (of_char c :: nat) \<noteq> 247)
      then [char_of ((of_char c :: nat) - 32)]
      else if c = CHR 0xDF then ''SS''
      else [c])"

definition upper :: "string \<Rightarrow> string" where
  "upper s = concat (map upper_char s)"

text \<open>
  \<open>str.lower\<close>: the letters A to Z and the accented capitals U+00C0 to U+00DE (the
  multiplication sign U+00D7 apart) move up by 32.
\<close>

definition lower_char :: "char \<Rightarrow> char" where
  "lower_char c =
     (if (65 \<le> (of_char c :: nat) \<and> (of_char c :: nat) \<le> 90)
        \<or> (192 \<le> (of_char c :: nat) \<and> (of_char c :: nat) \<le> 222 \<and> (of_char c :: nat) \<noteq> 215)
      then char_of ((of_char c :: nat) + 32) else c)"

definition lower :: "string \<Rightarrow> string" where
  "lower s = map lower_char s"

definition remove_spaces :: "string \<Rightarrow> string" where
  "remove_spaces s = filter (\<lambda>c. c \<noteq> CHR '' '') s"

text \<open>\<open>symbol.replace('P', '')\<close>.\<close>

definition remove_P :: "string \<Rightarrow> string" where
  "remove_P s = filter (\<lambda>c. c \<noteq> CHR ''P'') s"

text \<open>\<open>symbol.split('/')\<close>: the pieces between slashes, empty pieces included.\<close>

fun split_slash :: "string \<Rightarrow> string list" where
  "split_slash [] = [[]]"
| "split_slash (c # cs) =
     (if c = CHR ''/'' then [] # split_slash cs
      else (case split_slash cs of
              [] \<Rightarrow> [[c]]
            | w # ws \<Rightarrow> (c # w) # ws))"

text \<open>
  \<open>re.findall(r'\{[^}]+\}', cost)\<close> followed by \<open>symbol[1:-1]\<close>: scanning from the
  left, an opening brace followed by a non-empty run of characters other than the closing
  brace and then a closing brace is one match, and the scan resumes behind it; at any
  other position the scan moves one character on. The function returns the matches
  without their braces.
\<close>

function find_symbols :: "string \<Rightarrow> string list" where
  "find_symbols [] = []"
| "find_symbols (c # cs) =
     (if c = CHR ''{''
        \<and> takeWhile (\<lambda>x. x \<noteq> CHR ''}'') cs \<noteq> []
        \<and> dropWhile (\<lambda>x. x \<noteq> CHR ''}'') cs \<noteq> []
      then takeWhile (\<lambda>x. x \<noteq> CHR ''}'') cs
             # find_symbols (tl (dropWhile (\<lambda>x. x \<noteq> CHR ''}'') cs))
      else find_symbols cs)"
  by pat_completeness auto
termination
proof (relation "measure length")
  show "wf (measure length)" by simp
next
  fix c :: char and cs :: string
  have "length (tl (dropWhile (\<lambda>x. x \<noteq> CHR ''}'') cs)) \<le> length cs"
    using length_dropWhile_le [of "\<lambda>x. x \<noteq> CHR ''}''" cs] by simp
  then show "(tl (dropWhile (\<lambda>x. x \<noteq> CHR ''}'') cs), c # cs) \<in> measure length"
    by simp
next
  fix c :: char and cs :: string
  show "(cs, c # cs) \<in> measure length" by simp
qed

section \<open>Player state (state/player\_state.py)\<close>

record ManaPool =
  white :: int
  blue :: int
  black :: int
  red :: int
  green :: int
  colorless :: int

definition total_mana :: "ManaPool \<Rightarrow> int" where
  "total_mana p = white p + blue p + black p + red p + green p + colorless p"

datatype CardType =
  CREATURE | INSTANT | SORCERY | ENCHANTMENT | ARTIFACT | PLANESWALKER | LAND

datatype ZoneType = BATTLEFIELD | HAND | GRAVEYARD | LIBRARY | EXILE | STACK | COMMAND

text \<open>
  \<open>CardInfo\<close> (parser/events.py), with the fields the rules read. The class declares no
  \<open>type_line\<close>, and its constructor ignores a keyword that is no declared field (the
  test suite passes \<open>type_line=...\<close>), yet \<open>_is_legendary\<close> and \<open>_get_land_type\<close> read
  \<open>card.type_line\<close>. The field \<open>type_line\<close> below is \<open>None\<close> for a card that has no such
  attribute, which is every \<open>CardInfo\<close>: reading the attribute raises \<open>AttributeError\<close>.
  It is \<open>Some s\<close> only for an object of another class that stands in for a card and
  carries the attribute.
\<close>

record CardInfo =
  instance_id :: int
  name :: string
  mana_cost :: string
  power :: "int option"
  card_types :: "CardType list"
  abilities :: "string list"
  zone_type :: "ZoneType option"
  type_line :: "string option"

record Hand =
  cards :: "CardInfo list"
  max_size :: int

record Battlefield =
  creatures :: "CardInfo list"
  lands :: "CardInfo list"
  artifacts :: "CardInfo list"
  enchantments :: "CardInfo list"
  planeswalkers :: "CardInfo list"
  other :: "CardInfo list"

record PlayerState =
  player_id :: int
  life_total :: int
  max_hand_size :: int
  hand :: Hand
  battlefield :: Battlefield
  mana_pool :: ManaPool
  has_played_land_this_turn :: bool
  has_attacked_this_turn :: bool
  has_used_ability_this_turn :: "string set"
  energy_counters :: int

text \<open>\<open>Hand.get_card\<close>, \<open>Hand.remove_card\<close> and \<open>Hand.add_card\<close>.\<close>

definition hand_get_card :: "int \<Rightarrow> Hand \<Rightarrow> CardInfo option" where
  "hand_get_card iid h = find (\<lambda>crd. instance_id crd = iid) (cards h)"

fun remove_first :: "int \<Rightarrow> CardInfo list \<Rightarrow> CardInfo list" where
  "remove_first iid [] = []"
| "remove_first iid (crd # rest) =
     (if instance_id crd = iid then rest else crd # remove_first iid rest)"

definition hand_remove_card :: "int \<Rightarrow> Hand \<Rightarrow> CardInfo option \<times> Hand" where
  "hand_remove_card iid h =
     (find (\<lambda>crd. instance_id crd = iid) (cards h),
      h\<lparr>cards := remove_first iid (cards h)\<rparr>)"

definition hand_add_card :: "CardInfo \<Rightarrow> Hand \<Rightarrow> bool \<times> Hand" where
  "hand_add_card crd h =
     (if int (length (cards h)) < max_size h then (True, h\<lparr>cards := cards h @ [crd]\<rparr>)
      else (False, h))"

text \<open>\<open>Battlefield.add_card\<close>, \<open>get_all_cards\<close> and \<open>get_card\<close>.\<close>

definition add_card :: "CardInfo \<Rightarrow> Battlefield \<Rightarrow> Battlefield" where
  "add_card crd b =
     (if CREATURE \<in> set (card_types crd) then b\<lparr>creatures := creatures b @ [crd]\<rparr>
      else if LAND \<in> set (card_types crd) then b\<lparr>lands := lands b @ [crd]\<rparr>
      else if ARTIFACT \<in> set (card_types crd) then b\<lparr>artifacts := artifacts b @ [crd]\<rparr>
      else if ENCHANTMENT \<in> set (card_types crd) then b\<lparr>enchantments := enchantments b @ [crd]\<rparr>
      else if PLANESWALKER \<in> set (card_types crd) then b\<lparr>planeswalkers := planeswalkers b @ [crd]\<rparr>
      else b\<lparr>other := other b @ [crd]\<rparr>)"

definition get_all_cards :: "Battlefield \<Rightarrow> CardInfo list" where
  "get_all_cards b =
     creatures b @ lands b @ artifacts b @ enchantments b @ planeswalkers b @ other b"

definition battlefield_get_card :: "int \<Rightarrow> Battlefield \<Rightarrow> CardInfo option" where
  "battlefield_get_card iid b = find (\<lambda>crd. instance_id crd = iid) (get_all_cards b)"

definition is_alive :: "PlayerState \<Rightarrow> bool" where
  "is_alive p = (life_total p > 0)"

text \<open>\<open>take_damage\<close> returns the damage taken and the player as mutated.\<close>

definition take_damage :: "int \<Rightarrow> PlayerState \<Rightarrow> int \<times> PlayerState" where
  "take_damage amount p =
     (if amount \<le> 0 then (0, p)
      else (min amount (life_total p),
            p\<lparr>life_total := max 0 (life_total p - amount)\<rparr>))"

definition can_play_land :: "PlayerState \<Rightarrow> bool" where
  "can_play_land p = (\<not> has_played_land_this_turn p)"

definition can_attack :: "PlayerState \<Rightarrow> bool" where
  "can_attack p = (\<not> has_attacked_this_turn p)"

definition can_use_ability :: "string \<Rightarrow> PlayerState \<Rightarrow> bool" where
  "can_use_ability ability_name p = (ability_name \<notin> has_used_ability_this_turn p)"

definition reset_turn_flags :: "PlayerState \<Rightarrow> PlayerState" where
  "reset_turn_flags p =
     p\<lparr>has_played_land_this_turn := False,
       has_attacked_this_turn := False,
       has_used_ability_this_turn := {}\<rparr>"

section \<open>Mana costs (rules/mana\_system.py, class ManaCost)\<close>

record ManaCost =
  cost_string :: string
  c_white :: nat
  c_blue :: nat
  c_black :: nat
  c_red :: nat
  c_green :: nat
  c_colorless :: nat
  c_generic :: nat
  c_hybrid :: "string list"
  c_phyrexian :: "string list"
  c_snow :: nat
  c_energy :: nat
  c_life :: nat

text \<open>
  The body of the loop of \<open>_parse_cost\<close>: one symbol, braces removed. The branch for
  a digit symbol calls \<open>int\<close>, which may raise.
\<close>

definition parse_symbol :: "ManaCost \<Rightarrow> string \<Rightarrow> py_error + ManaCost" where
  "parse_symbol c symbol =
     (if symbol = ''W'' then Inr (c\<lparr>c_white := c_white c + 1\<rparr>)
      else if symbol = ''U'' then Inr (c\<lparr>c_blue := c_blue c + 1\<rparr>)
      else if symbol = ''B'' then Inr (c\<lparr>c_black := c_black c + 1\<rparr>)
      else if symbol = ''R'' then Inr (c\<lparr>c_red := c_red c + 1\<rparr>)
      else if symbol = ''G'' then Inr (c\<lparr>c_green := c_green c + 1\<rparr>)
      else if symbol = ''C'' then Inr (c\<lparr>c_colorless := c_colorless c + 1\<rparr>)
      else if isdigit symbol then
        (case py_int symbol of
           Inl e \<Rightarrow> Inl e
         | Inr n \<Rightarrow> Inr (c\<lparr>c_generic := c_generic c + n\<rparr>))
      else if CHR ''/'' \<in> set symbol then Inr (c\<lparr>c_hybrid := c_hybrid c @ [symbol]\<rparr>)
      else if CHR ''P'' \<in> set symbol then Inr (c\<lparr>c_phyrexian := c_phyrexian c @ [symbol]\<rparr>)
      else if CHR ''S'' \<in> set symbol then Inr (c\<lparr>c_snow := c_snow c + 1\<rparr>)
      else if CHR ''E'' \<in> set symbol then Inr (c\<lparr>c_energy := c_energy c + 1\<rparr>)
      else if CHR ''L'' \<in> set symbol then Inr (c\<lparr>c_life := c_life c + 1\<rparr>)
      else Inr c)"

text \<open>\<open>for symbol in symbols\<close>: the loop ends at the first symbol that raises.\<close>

fun parse_symbols :: "ManaCost \<Rightarrow> string list \<Rightarrow> py_error + ManaCost" where
  "parse_symbols c [] = Inr c"
| "parse_symbols c (symbol # rest) =
     (case parse_symbol c symbol of
        Inl e \<Rightarrow> Inl e
      | Inr c' \<Rightarrow> parse_symbols c' rest)"

definition parse_cost :: "ManaCost \<Rightarrow> py_error + ManaCost" where
  "parse_cost c =
     (if cost_string c = [] then Inr c
      else parse_symbols c (find_symbols (upper (remove_spaces (cost_string c)))))"

text \<open>
  \<open>ManaCost(cost_string)\<close>: the constructor zeroes every component and parses; it
  returns the cost or raises what the parse raises.
\<close>

definition new_ManaCost :: "string \<Rightarrow> py_error + ManaCost" where
  "new_ManaCost s =
     parse_cost \<lparr>cost_string = s, c_white = 0, c_blue = 0, c_black = 0, c_red = 0,
                 c_green = 0, c_colorless = 0, c_generic = 0, c_hybrid = [],
                 c_phyrexian = [], c_snow = 0, c_energy = 0, c_life = 0\<rparr>"

definition get_total_cost :: "ManaCost \<Rightarrow> nat" where
  "get_total_cost c =
     c_white c + c_blue c + c_black c + c_red c + c_green c + c_colorless c + c_generic c
       + length (c_hybrid c) + length (c_phyrexian c) + c_snow c"

section \<open>Payability (class ManaSystem)\<close>

definition can_pay_basic_mana :: "ManaCost \<Rightarrow> PlayerState \<Rightarrow> bool" where
  "can_pay_basic_mana cost player =
     (if white (mana_pool player) < int (c_white cost) then False
      else if blue (mana_pool player) < int (c_blue cost) then False
      else if black (mana_pool player) < int (c_black cost) then False
      else if red (mana_pool player) < int (c_red cost) then False
      else if green (mana_pool player) < int (c_green cost) then False
      else if colorless (mana_pool player) < int (c_colorless cost) then False
      else if total_mana (mana_pool player)
                - int (c_white cost + c_blue cost + c_black cost + c_red cost
                       + c_green cost + c_colorless cost)
              < int (c_generic cost) then False
      else True)"

text \<open>\<open>_can_pay_mana_symbol\<close>; the branch for a digit symbol calls \<open>int\<close>.\<close>

definition can_pay_mana_symbol :: "string \<Rightarrow> ManaPool \<Rightarrow> py_error + bool" where
  "can_pay_mana_symbol symbol pool =
     (if symbol = ''W'' then Inr (white pool > 0)
      else if symbol = ''U'' then Inr (blue pool > 0)
      else if symbol = ''B'' then Inr (black pool > 0)
      else if symbol = ''R'' then Inr (red pool > 0)
      else if symbol = ''G'' then Inr (green pool > 0)
      else if symbol = ''C'' then Inr (colorless pool > 0)
      else if isdigit symbol then
        (case py_int symbol of
           Inl e \<Rightarrow> Inl e
         | Inr n \<Rightarrow> Inr (total_mana pool \<ge> int n))
      else Inr False)"

text \<open>
  \<open>for option in options\<close> in \<open>_can_pay_hybrid_symbol\<close>: True at the first option
  that can be paid, False when none can.
\<close>

fun can_pay_any_option :: "string list \<Rightarrow> ManaPool \<Rightarrow> py_error + bool" where
  "can_pay_any_option [] pool = Inr False"
| "can_pay_any_option (option # options) pool =
     (case can_pay_mana_symbol option pool of
        Inl e \<Rightarrow> Inl e
      | Inr ok \<Rightarrow> if ok then Inr True else can_pay_any_option options pool)"

definition can_pay_hybrid_symbol :: "string \<Rightarrow> ManaPool \<Rightarrow> py_error + bool" where
  "can_pay_hybrid_symbol symbol pool =
     (if CHR ''/'' \<notin> set symbol then Inr False
      else can_pay_any_option (split_slash symbol) pool)"

text \<open>\<open>for hybrid in cost.hybrid\<close>: False at the first symbol that cannot be paid.\<close>

fun can_pay_hybrid_list :: "string list \<Rightarrow> ManaPool \<Rightarrow> py_error + bool" where
  "can_pay_hybrid_list [] pool = Inr True"
| "can_pay_hybrid_list (hybrid # rest) pool =
     (case can_pay_hybrid_symbol hybrid pool of
        Inl e \<Rightarrow> Inl e
      | Inr ok \<Rightarrow> if ok then can_pay_hybrid_list rest pool else Inr False)"

definition can_pay_hybrid_mana :: "ManaCost \<Rightarrow> PlayerState \<Rightarrow> py_error + bool" where
  "can_pay_hybrid_mana cost player = can_pay_hybrid_list (c_hybrid cost) (mana_pool player)"

definition can_pay_phyrexian_symbol :: "string \<Rightarrow> PlayerState \<Rightarrow> bool" where
  "can_pay_phyrexian_symbol symbol player =
     (if CHR ''P'' \<in> set symbol then
        (if life_total player \<ge> 2 then True
         else if remove_P symbol = ''W'' then white (mana_pool player) > 0
         else if remove_P symbol = ''U'' then blue (mana_pool player) > 0
         else if remove_P symbol = ''B'' then black (mana_pool player) > 0
         else if remove_P symbol = ''R'' then red (mana_pool player) > 0
         else if remove_P symbol = ''G'' then green (mana_pool player) > 0
         else if remove_P symbol = ''C'' then colorless (mana_pool player) > 0
         else False)
      else False)"

definition can_pay_phyrexian_mana :: "ManaCost \<Rightarrow> PlayerState \<Rightarrow> bool" where
  "can_pay_phyrexian_mana cost player =
     list_all (\<lambda>phyrexian. can_pay_phyrexian_symbol phyrexian player) (c_phyrexian cost)"

definition can_pay_snow_mana :: "ManaCost \<Rightarrow> PlayerState \<Rightarrow> bool" where
  "can_pay_snow_mana cost player = (c_snow cost = 0)"

definition can_pay_energy :: "ManaCost \<Rightarrow> PlayerState \<Rightarrow> bool" where
  "can_pay_energy cost player = (energy_counters player \<ge> int (c_energy cost))"

definition can_pay_life :: "ManaCost \<Rightarrow> PlayerState \<Rightarrow> bool" where
  "can_pay_life cost player = (life_total player \<ge> int (c_life cost))"

definition can_pay_mana_cost :: "ManaCost \<Rightarrow> PlayerState \<Rightarrow> py_error + bool" where
  "can_pay_mana_cost cost player =
     (if \<not> can_pay_basic_mana cost player then Inr False
      else (case can_pay_hybrid_mana cost player of
              Inl e \<Rightarrow> Inl e
            | Inr hybrid_ok \<Rightarrow>
                if \<not> hybrid_ok then Inr False
                else if \<not> can_pay_phyrexian_mana cost player then Inr False
                else if \<not> can_pay_snow_mana cost player then Inr False
                else if \<not> can_pay_energy cost player then Inr False
                else if \<not> can_pay_life cost player then Inr False
                else Inr True))"

text \<open>\<open>can_pay_cost\<close>: an exception is logged and the answer is False.\<close>

definition can_pay_cost :: "string \<Rightarrow> PlayerState \<Rightarrow> bool" where
  "can_pay_cost s player =
     (if s = [] then True
      else (case new_ManaCost s of
              Inl e \<Rightarrow> False
            | Inr cost \<Rightarrow>
                (case can_pay_mana_cost cost player of Inl e \<Rightarrow> False | Inr ok \<Rightarrow> ok)))"

section \<open>Payment (class ManaSystem)\<close>

text \<open>
  The payment functions mutate the player in place and return a flag; here each returns
  the flag, or the exception it raises, together with the player (or pool) as it stands
  at that moment, so that a debit made before a failure stays visible.

  The chain \<open>if white > 0 ... elif blue > 0 ... else\<close> that debits one mana from the
  first positive counter occurs twice in the source (generic pips, numeric options of a
  hybrid symbol); \<open>None\<close> is its \<open>else\<close> branch.
\<close>

definition debit_first_positive :: "ManaPool \<Rightarrow> ManaPool option" where
  "debit_first_positive pool =
     (if white pool > 0 then Some (pool\<lparr>white := white pool - 1\<rparr>)
      else if blue pool > 0 then Some (pool\<lparr>blue := blue pool - 1\<rparr>)
      else if black pool > 0 then Some (pool\<lparr>black := black pool - 1\<rparr>)
      else if red pool > 0 then Some (pool\<lparr>red := red pool - 1\<rparr>)
      else if green pool > 0 then Some (pool\<lparr>green := green pool - 1\<rparr>)
      else if colorless pool > 0 then Some (pool\<lparr>colorless := colorless pool - 1\<rparr>)
      else None)"

text \<open>
  \<open>while generic_paid < cost.generic\<close>: the argument counts the pips still to pay.
\<close>

fun pay_generic :: "nat \<Rightarrow> ManaPool \<Rightarrow> bool \<times> ManaPool" where
  "pay_generic 0 pool = (True, pool)"
| "pay_generic (Suc n) pool =
     (case debit_first_positive pool of
        None \<Rightarrow> (False, pool)
      | Some pool' \<Rightarrow> pay_generic n pool')"

definition pay_basic_mana :: "ManaCost \<Rightarrow> PlayerState \<Rightarrow> bool \<times> PlayerState" where
  "pay_basic_mana cost player =
     (let pool = mana_pool player;
          pool = pool\<lparr>white := white pool - int (c_white cost)\<rparr>;
          pool = pool\<lparr>blue := blue pool - int (c_blue cost)\<rparr>;
          pool = pool\<lparr>black := black pool - int (c_black cost)\<rparr>;
          pool = pool\<lparr>red := red pool - int (c_red cost)\<rparr>;
          pool = pool\<lparr>green := green pool - int (c_green cost)\<rparr>;
          pool = pool\<lparr>colorless := colorless pool - int (c_colorless cost)\<rparr>;
          (ok, pool) = pay_generic (c_generic cost) pool
      in (ok, player\<lparr>mana_pool := pool\<rparr>))"

text \<open>\<open>for _ in range(amount)\<close> in \<open>_pay_mana_symbol\<close>.\<close>

fun pay_amount :: "nat \<Rightarrow> ManaPool \<Rightarrow> bool \<times> ManaPool" where
  "pay_amount 0 pool = (True, pool)"
| "pay_amount (Suc n) pool =
     (case debit_first_positive pool of
        None \<Rightarrow> (False, pool)
      | Some pool' \<Rightarrow> pay_amount n pool')"

definition pay_mana_symbol :: "string \<Rightarrow> ManaPool \<Rightarrow> (py_error + bool) \<times> ManaPool" where
  "pay_mana_symbol symbol pool =
     (if symbol = ''W'' then (Inr True, pool\<lparr>white := white pool - 1\<rparr>)
      else if symbol = ''U'' then (Inr True, pool\<lparr>blue := blue pool - 1\<rparr>)
      else if symbol = ''B'' then (Inr True, pool\<lparr>black := black pool - 1\<rparr>)
      else if symbol = ''R'' then (Inr True, pool\<lparr>red := red pool - 1\<rparr>)
      else if symbol = ''G'' then (Inr True, pool\<lparr>green := green pool - 1\<rparr>)
      else if symbol = ''C'' then (Inr True, pool\<lparr>colorless := colorless pool - 1\<rparr>)
      else if isdigit symbol then
        (case py_int symbol of
           Inl e \<Rightarrow> (Inl e, pool)
         | Inr amount \<Rightarrow> (Inr (fst (pay_amount amount pool)), snd (pay_amount amount pool)))
      else (Inr False, pool))"

text \<open>
  \<open>_pay_hybrid_symbol\<close>: the loop over the options returns at the first option that
  \<open>_can_pay_mana_symbol\<close> accepts.
\<close>

fun pay_options :: "string list \<Rightarrow> ManaPool \<Rightarrow> (py_error + bool) \<times> ManaPool" where
  "pay_options [] pool = (Inr False, pool)"
| "pay_options (option # options) pool =
     (case can_pay_mana_symbol option pool of
        Inl e \<Rightarrow> (Inl e, pool)
      | Inr ok \<Rightarrow> if ok then pay_mana_symbol option pool else pay_options options pool)"

definition pay_hybrid_symbol :: "string \<Rightarrow> PlayerState \<Rightarrow> (py_error + bool) \<times> PlayerState" where
  "pay_hybrid_symbol symbol player =
     (fst (pay_options (split_slash symbol) (mana_pool player)),
      player\<lparr>mana_pool := snd (pay_options (split_slash symbol) (mana_pool player))\<rparr>)"

text \<open>\<open>for hybrid in cost.hybrid\<close>, returning False at the first symbol that fails.\<close>

fun pay_hybrid_list :: "string list \<Rightarrow> PlayerState \<Rightarrow> (py_error + bool) \<times> PlayerState" where
  "pay_hybrid_list [] player = (Inr True, player)"
| "pay_hybrid_list (hybrid # rest) player =
     (case fst (pay_hybrid_symbol hybrid player) of
        Inl e \<Rightarrow> (Inl e, snd (pay_hybrid_symbol hybrid player))
      | Inr ok \<Rightarrow>
          if ok then pay_hybrid_list rest (snd (pay_hybrid_symbol hybrid player))
          else (Inr False, snd (pay_hybrid_symbol hybrid player)))"

definition pay_hybrid_mana :: "ManaCost \<Rightarrow> PlayerState \<Rightarrow> (py_error + bool) \<times> PlayerState" where
  "pay_hybrid_mana cost player = pay_hybrid_list (c_hybrid cost) player"

definition pay_phyrexian_symbol :: "string \<Rightarrow> PlayerState \<Rightarrow> (py_error + bool) \<times> PlayerState" where
  "pay_phyrexian_symbol symbol player =
     (if CHR ''P'' \<in> set symbol then
        (case can_pay_mana_symbol (remove_P symbol) (mana_pool player) of
           Inl e \<Rightarrow> (Inl e, player)
         | Inr ok \<Rightarrow>
             if ok then
               (fst (pay_mana_symbol (remove_P symbol) (mana_pool player)),
                player\<lparr>mana_pool := snd (pay_mana_symbol (remove_P symbol) (mana_pool player))\<rparr>)
             else if life_total player \<ge> 2 then (Inr True, snd (take_damage 2 player))
             else (Inr False, player))
      else (Inr False, player))"

fun pay_phyrexian_list :: "string list \<Rightarrow> PlayerState \<Rightarrow> (py_error + bool) \<times> PlayerState" where
  "pay_phyrexian_list [] player = (Inr True, player)"
| "pay_phyrexian_list (phyrexian # rest) player =
     (case fst (pay_phyrexian_symbol phyrexian player) of
        Inl e \<Rightarrow> (Inl e, snd (pay_phyrexian_symbol phyrexian player))
      | Inr ok \<Rightarrow>
          if ok then pay_phyrexian_list rest (snd (pay_phyrexian_symbol phyrexian player))
          else (Inr False, snd (pay_phyrexian_symbol phyrexian player)))"

definition pay_phyrexian_mana :: "ManaCost \<Rightarrow> PlayerState \<Rightarrow> (py_error + bool) \<times> PlayerState" where
  "pay_phyrexian_mana cost player = pay_phyrexian_list (c_phyrexian cost) player"

definition pay_snow_mana :: "ManaCost \<Rightarrow> PlayerState \<Rightarrow> bool \<times> PlayerState" where
  "pay_snow_mana cost player = (c_snow cost = 0, player)"

definition pay_energy :: "ManaCost \<Rightarrow> PlayerState \<Rightarrow> bool \<times> PlayerState" where
  "pay_energy cost player =
     (if energy_counters player \<ge> int (c_energy cost)
      then (True, player\<lparr>energy_counters := energy_counters player - int (c_energy cost)\<rparr>)
      else (False, player))"

definition pay_life :: "ManaCost \<Rightarrow> PlayerState \<Rightarrow> bool \<times> PlayerState" where
  "pay_life cost player =
     (if life_total player \<ge> int (c_life cost)
      then (True, snd (take_damage (int (c_life cost)) player))
      else (False, player))"

text \<open>
  \<open>_pay_mana_cost\<close>: the six steps in order, returning False at the first that fails;
  an exception is logged and the answer is False, with the player as the steps so far
  have left it. The closing \<open>_record_mana_spent\<close> appends the cost to the history that
  the \<open>ManaSystem\<close> object keeps for itself and does not touch the player; it is left
  out.
\<close>

definition pay_mana_cost :: "ManaCost \<Rightarrow> PlayerState \<Rightarrow> bool \<times> PlayerState" where
  "pay_mana_cost cost player =
     (case pay_basic_mana cost player of
        (False, p1) \<Rightarrow> (False, p1)
      | (True, p1) \<Rightarrow>
     (case pay_hybrid_mana cost p1 of
        (Inl e, p2) \<Rightarrow> (False, p2)
      | (Inr False, p2) \<Rightarrow> (False, p2)
      | (Inr True, p2) \<Rightarrow>
     (case pay_phyrexian_mana cost p2 of
        (Inl e, p3) \<Rightarrow> (False, p3)
      | (Inr False, p3) \<Rightarrow> (False, p3)
      | (Inr True, p3) \<Rightarrow>
     (case pay_snow_mana cost p3 of
        (False, p4) \<Rightarrow> (False, p4)
      | (True, p4) \<Rightarrow>
     (case pay_energy cost p4 of
        (False, p5) \<Rightarrow> (False, p5)
      | (True, p5) \<Rightarrow>
     (case pay_life cost p5 of
        (False, p6) \<Rightarrow> (False, p6)
      | (True, p6) \<Rightarrow> (True, p6)))))))"

text \<open>
  \<open>pay_cost\<close>: an exception of the constructor or of the check is logged and the
  answer is False; neither has touched the player.
\<close>

definition pay_cost :: "string \<Rightarrow> PlayerState \<Rightarrow> bool \<times> PlayerState" where
  "pay_cost s player =
     (if s = [] then (True, player)
      else (case new_ManaCost s of
              Inl e \<Rightarrow> (False, player)
            | Inr cost \<Rightarrow>
                (case can_pay_mana_cost cost player of
                   Inl e \<Rightarrow> (False, player)
                 | Inr ok \<Rightarrow> if \<not> ok then (False, player) else pay_mana_cost cost player)))"

section \<open>Game state (state/game\_state.py)\<close>

datatype Phase =
  UNTAP | UPKEEP | DRAW | FIRST_MAIN | COMBAT_BEGIN | DECLARE_ATTACKERS
  | DECLARE_BLOCKERS | COMBAT_DAMAGE | COMBAT_END | SECOND_MAIN | END_STEP | CLEANUP

text \<open>
  The enumeration \<open>Phase\<close> of parser/events.py has the member \<open>COMBAT_END\<close> and no
  member \<open>END_COMBAT\<close>. The rules modules write \<open>Phase.END_COMBAT\<close>; evaluating that
  expression raises \<open>AttributeError\<close>.
\<close>

definition Phase_END_COMBAT :: "py_error + Phase" where
  "Phase_END_COMBAT = Inl AttributeError"

datatype GameStatus = WAITING | STARTING | ACTIVE | ENDED | PAUSED

text \<open>
  The fields of \<open>GameState\<close> that the rules read or write. The event history and the
  state-change callbacks are left out: \<open>_notify_state_change\<close> only calls observers and
  swallows what they raise.
\<close>

record GameState =
  status :: GameStatus
  turn_number :: int
  current_phase :: "Phase option"
  current_step :: "string option"
  active_player :: "int option"
  priority_player :: "int option"
  self_player :: "PlayerState option"
  opponent_player :: "PlayerState option"

definition get_player :: "GameState \<Rightarrow> int \<Rightarrow> PlayerState option" where
  "get_player gs pid =
     (case self_player gs of
        Some p \<Rightarrow>
          (if player_id p = pid then Some p
           else (case opponent_player gs of
                   Some q \<Rightarrow> if player_id q = pid then Some q else None
                 | None \<Rightarrow> None))
      | None \<Rightarrow>
          (case opponent_player gs of
             Some q \<Rightarrow> if player_id q = pid then Some q else None
           | None \<Rightarrow> None))"

text \<open>
  A method called on the object that \<open>get_player\<close> returned mutates that player inside
  the game state: \<open>update_player gs pid f\<close> applies \<open>f\<close> to the player \<open>get_player\<close>
  finds.
\<close>

definition update_player :: "GameState \<Rightarrow> int \<Rightarrow> (PlayerState \<Rightarrow> PlayerState) \<Rightarrow> GameState" where
  "update_player gs pid f =
     (case self_player gs of
        Some p \<Rightarrow>
          (if player_id p = pid then gs\<lparr>self_player := Some (f p)\<rparr>
           else (case opponent_player gs of
                   Some q \<Rightarrow> if player_id q = pid then gs\<lparr>opponent_player := Some (f q)\<rparr> else gs
                 | None \<Rightarrow> gs))
      | None \<Rightarrow>
          (case opponent_player gs of
             Some q \<Rightarrow> if player_id q = pid then gs\<lparr>opponent_player := Some (f q)\<rparr> else gs
           | None \<Rightarrow> gs))"

definition set_phase :: "Phase \<Rightarrow> string option \<Rightarrow> GameState \<Rightarrow> GameState" where
  "set_phase phase step gs = gs\<lparr>current_phase := Some phase, current_step := step\<rparr>"

definition reset_both :: "GameState \<Rightarrow> GameState" where
  "reset_both gs =
     gs\<lparr>self_player := map_option reset_turn_flags (self_player gs),
        opponent_player := map_option reset_turn_flags (opponent_player gs)\<rparr>"

definition next_turn :: "GameState \<Rightarrow> GameState" where
  "next_turn gs = reset_both (gs\<lparr>turn_number := turn_number gs + 1\<rparr>)"

definition is_game_active :: "GameState \<Rightarrow> bool" where
  "is_game_active gs = (status gs = ACTIVE)"

section \<open>Timing rules (rules/timing\_rules.py)\<close>

record TimingRules =
  game_state :: GameState
  priority_passed :: "int set"
  current_priority_player :: "int option"

definition player_has_priority :: "TimingRules \<Rightarrow> int \<Rightarrow> bool" where
  "player_has_priority tr pid =
     (if active_player (game_state tr) = Some pid then True
      else if priority_player (game_state tr) = Some pid then True
      else if pid \<in> priority_passed tr then False
      else True)"

text \<open>The list \<open>players\<close> that two methods build: self first, then the opponent.\<close>

definition players_of :: "GameState \<Rightarrow> int list" where
  "players_of gs =
     (case self_player gs of Some p \<Rightarrow> [player_id p] | None \<Rightarrow> [])
       @ (case opponent_player gs of Some q \<Rightarrow> [player_id q] | None \<Rightarrow> [])"

definition all_players_passed_priority :: "TimingRules \<Rightarrow> bool" where
  "all_players_passed_priority tr =
     list_all (\<lambda>pid. pid \<in> priority_passed tr) (players_of (game_state tr))"

text \<open>\<open>players.index(x)\<close> for an \<open>x\<close> that is in the list.\<close>

fun index_of :: "int \<Rightarrow> int list \<Rightarrow> nat" where
  "index_of x [] = 0"
| "index_of x (y # ys) = (if x = y then 0 else Suc (index_of x ys))"

text \<open>
  \<open>_move_to_next_player\<close>. With no player registered the modulus raises
  \<open>ZeroDivisionError\<close>, which the method catches and logs: the state stays as it is.
\<close>

definition move_to_next_player :: "TimingRules \<Rightarrow> TimingRules" where
  "move_to_next_player tr =
     (let players = players_of (game_state tr);
          current_player = (case priority_player (game_state tr) of
                              None \<Rightarrow> active_player (game_state tr)
                            | Some c \<Rightarrow> Some c);
          current_index = (case current_player of
                             None \<Rightarrow> 0
                           | Some c \<Rightarrow> if c \<in> set players then index_of c players else 0)
      in if players = [] then tr
         else (let next_player = players ! ((current_index + 1) mod length players)
               in tr\<lparr>game_state := (game_state tr)\<lparr>priority_player := Some next_player\<rparr>,
                     current_priority_player := Some next_player\<rparr>))"

definition end_turn :: "GameState \<Rightarrow> GameState" where
  "end_turn gs = set_phase UNTAP None (next_turn (reset_both gs))"

text \<open>
  The body of the \<open>try\<close> of \<open>_advance_phase\<close>: the \<open>if\<close>/\<open>elif\<close> chain in source order.
  The branch for \<open>COMBAT_DAMAGE\<close> evaluates \<open>Phase.END_COMBAT\<close> as the argument of
  \<open>set_phase\<close>, and every phase that reaches the next test evaluates it in the
  comparison; nothing has been mutated at either point.
\<close>

definition advance_phase_body :: "GameState \<Rightarrow> py_error + GameState" where
  "advance_phase_body gs =
     (if current_phase gs = Some UNTAP then Inr (set_phase UPKEEP None gs)
      else if current_phase gs = Some UPKEEP then Inr (set_phase DRAW None gs)
      else if current_phase gs = Some DRAW then Inr (set_phase FIRST_MAIN None gs)
      else if current_phase gs = Some FIRST_MAIN then Inr (set_phase COMBAT_BEGIN None gs)
      else if current_phase gs = Some COMBAT_BEGIN then Inr (set_phase DECLARE_ATTACKERS None gs)
      else if current_phase gs = Some DECLARE_ATTACKERS then Inr (set_phase DECLARE_BLOCKERS None gs)
      else if current_phase gs = Some DECLARE_BLOCKERS then Inr (set_phase COMBAT_DAMAGE None gs)
      else if current_phase gs = Some COMBAT_DAMAGE then
        (case Phase_END_COMBAT of
           Inl e \<Rightarrow> Inl e
         | Inr end_combat \<Rightarrow> Inr (set_phase end_combat None gs))
      else
        (case Phase_END_COMBAT of
           Inl e \<Rightarrow> Inl e
         | Inr end_combat \<Rightarrow>
             if current_phase gs = Some end_combat then Inr (set_phase SECOND_MAIN None gs)
             else if current_phase gs = Some SECOND_MAIN then Inr (set_phase END_STEP None gs)
             else if current_phase gs = Some END_STEP then Inr (set_phase CLEANUP None gs)
             else if current_phase gs = Some CLEANUP then Inr (end_turn gs)
             else Inr gs))"

text \<open>\<open>_advance_phase\<close>: an exception is logged and the method returns.\<close>

definition advance_phase :: "GameState \<Rightarrow> GameState" where
  "advance_phase gs = (case advance_phase_body gs of Inl e \<Rightarrow> gs | Inr gs' \<Rightarrow> gs')"

definition resolve_priority :: "TimingRules \<Rightarrow> TimingRules" where
  "resolve_priority tr =
     tr\<lparr>priority_passed := {}, game_state := advance_phase (game_state tr)\<rparr>"

definition pass_priority :: "TimingRules \<Rightarrow> int \<Rightarrow> bool \<times> TimingRules" where
  "pass_priority tr pid =
     (let tr1 = tr\<lparr>priority_passed := insert pid (priority_passed tr)\<rparr>
      in if all_players_passed_priority tr1 then (True, resolve_priority tr1)
         else (True, move_to_next_player tr1))"

section \<open>Actions (rules/action\_types.py)\<close>

datatype ActionType =
  PLAY_LAND | CAST_SPELL | ACTIVATE_ABILITY | A_DECLARE_ATTACKERS | A_DECLARE_BLOCKERS
  | PASS_PRIORITY | CONCEDE | MULLIGAN | SCRY | DRAW_CARD | SHUFFLE | ASSIGN_DAMAGE
  | ASSIGN_COMBAT_DAMAGE | RESPOND | COUNTER_SPELL | PAY_COST | CHOOSE_MODE | CHOOSE_TARGETS

datatype ActionTiming =
  ANY_TIME | MAIN_PHASE | COMBAT_PHASE | T_END_STEP | T_UPKEEP | DRAW_STEP
  | T_DECLARE_ATTACKERS | T_DECLARE_BLOCKERS | T_COMBAT_DAMAGE | T_END_COMBAT

text \<open>
  The action classes that the legality engine builds, each with its \<open>player_id\<close> first.
  An action carries the \<open>action_type\<close> its class declares and the \<open>timing\<close> its
  constructor forces. The \<open>targets\<close> lists are left out: \<open>_is_valid_target\<close> accepts
  every target, so \<open>_validate_targets\<close> never rejects. The \<open>reason\<close> text that
  \<open>set_illegal\<close> stores on the action is left out as well.
\<close>

datatype Action =
  PlayLandAction int CardInfo "string option"
  | CastSpellAction int CardInfo string
  | ActivateAbilityAction int CardInfo string
  | DeclareAttackersAction int "CardInfo list"
  | DeclareBlockersAction int "(int \<times> int list) list"
  | AssignDamageAction int CardInfo
  | PassPriorityAction int
  | ConcedeAction int
  | DrawCardAction int
  | ScryAction int

fun action_type :: "Action \<Rightarrow> ActionType" where
  "action_type (PlayLandAction pid crd lt) = PLAY_LAND"
| "action_type (CastSpellAction pid spell cost) = CAST_SPELL"
| "action_type (ActivateAbilityAction pid source ability) = ACTIVATE_ABILITY"
| "action_type (DeclareAttackersAction pid attackers) = A_DECLARE_ATTACKERS"
| "action_type (DeclareBlockersAction pid blocks) = A_DECLARE_BLOCKERS"
| "action_type (AssignDamageAction pid source) = ASSIGN_DAMAGE"
| "action_type (PassPriorityAction pid) = PASS_PRIORITY"
| "action_type (ConcedeAction pid) = CONCEDE"
| "action_type (DrawCardAction pid) = DRAW_CARD"
| "action_type (ScryAction pid) = SCRY"

fun timing :: "Action \<Rightarrow> ActionTiming" where
  "timing (PlayLandAction pid crd lt) = MAIN_PHASE"
| "timing (CastSpellAction pid spell cost) = ANY_TIME"
| "timing (ActivateAbilityAction pid source ability) = ANY_TIME"
| "timing (DeclareAttackersAction pid attackers) = T_DECLARE_ATTACKERS"
| "timing (DeclareBlockersAction pid blocks) = T_DECLARE_BLOCKERS"
| "timing (AssignDamageAction pid source) = T_COMBAT_DAMAGE"
| "timing (PassPriorityAction pid) = ANY_TIME"
| "timing (ConcedeAction pid) = ANY_TIME"
| "timing (DrawCardAction pid) = ANY_TIME"
| "timing (ScryAction pid) = ANY_TIME"

fun action_player_id :: "Action \<Rightarrow> int" where
  "action_player_id (PlayLandAction pid crd lt) = pid"
| "action_player_id (CastSpellAction pid spell cost) = pid"
| "action_player_id (ActivateAbilityAction pid source ability) = pid"
| "action_player_id (DeclareAttackersAction pid attackers) = pid"
| "action_player_id (DeclareBlockersAction pid blocks) = pid"
| "action_player_id (AssignDamageAction pid source) = pid"
| "action_player_id (PassPriorityAction pid) = pid"
| "action_player_id (ConcedeAction pid) = pid"
| "action_player_id (DrawCardAction pid) = pid"
| "action_player_id (ScryAction pid) = pid"

section \<open>Legality engine (rules/legality\_engine.py)\<close>

text \<open>\<open>sub in s\<close> on strings.\<close>

fun contains :: "string \<Rightarrow> string \<Rightarrow> bool" where
  "contains sub [] = (sub = [])"
| "contains sub (c # cs) = (take (length sub) (c # cs) = sub \<or> contains sub cs)"

text \<open>\<open>_get_land_type\<close> reads \<open>land.type_line\<close>.\<close>

definition get_land_type :: "CardInfo \<Rightarrow> py_error + string" where
  "get_land_type land =
     (case type_line land of
        None \<Rightarrow> Inl AttributeError
      | Some t \<Rightarrow> Inr (if contains ''Basic'' t then ''basic'' else ''non-basic''))"

text \<open>
  The engine's own \<open>_can_pay_mana_cost\<close>: the length of the cost text without braces
  against the total of the pool.
\<close>

definition engine_can_pay_mana_cost :: "string \<Rightarrow> PlayerState \<Rightarrow> bool" where
  "engine_can_pay_mana_cost cost player =
     (if cost = [] then True
      else total_mana (mana_pool player)
             \<ge> int (length (filter (\<lambda>c. c \<noteq> CHR ''}'') (filter (\<lambda>c. c \<noteq> CHR ''{'') cost))))"

definition can_cast_spell :: "CardInfo \<Rightarrow> PlayerState \<Rightarrow> bool" where
  "can_cast_spell spell player =
     (if LAND \<in> set (card_types spell) then False
      else if \<not> engine_can_pay_mana_cost (mana_cost spell) player then False
      else True)"

definition can_activate_ability :: "CardInfo \<Rightarrow> PlayerState \<Rightarrow> bool" where
  "can_activate_ability crd player =
     (if \<not> can_use_ability ''general'' player then False
      else if abilities crd = [] then False
      else True)"

text \<open>
  The loop of \<open>_generate_main_phase_actions\<close> over the hand that builds one
  \<open>PlayLandAction\<close> per land; building the action calls \<open>_get_land_type\<close>.
\<close>

fun land_actions :: "int \<Rightarrow> CardInfo list \<Rightarrow> py_error + Action list" where
  "land_actions pid [] = Inr []"
| "land_actions pid (land # rest) =
     (if LAND \<in> set (card_types land) then
        (case get_land_type land of
           Inl e \<Rightarrow> Inl e
         | Inr t \<Rightarrow>
             (case land_actions pid rest of
                Inl e \<Rightarrow> Inl e
              | Inr acts \<Rightarrow> Inr (PlayLandAction pid land (Some t) # acts)))
      else land_actions pid rest)"

definition spell_actions :: "PlayerState \<Rightarrow> Action list" where
  "spell_actions player =
     map (\<lambda>spell. CastSpellAction (player_id player) spell (mana_cost spell))
         (filter (\<lambda>spell. can_cast_spell spell player) (cards (hand player)))"

definition ability_actions :: "PlayerState \<Rightarrow> Action list" where
  "ability_actions player =
     concat (map (\<lambda>crd. if can_activate_ability crd player
                         then map (\<lambda>ability. ActivateAbilityAction (player_id player) crd ability)
                                  (abilities crd)
                         else [])
                 (get_all_cards (battlefield player)))"

definition generate_main_phase_actions :: "PlayerState \<Rightarrow> bool \<Rightarrow> py_error + Action list" where
  "generate_main_phase_actions player is_active_player =
     (case (if is_active_player \<and> can_play_land player
            then land_actions (player_id player) (cards (hand player))
            else Inr []) of
        Inl e \<Rightarrow> Inl e
      | Inr acts \<Rightarrow> Inr (acts @ spell_actions player @ ability_actions player))"

definition generate_combat_phase_actions :: "PlayerState \<Rightarrow> bool \<Rightarrow> Action list" where
  "generate_combat_phase_actions player is_active_player =
     (if is_active_player \<and> can_attack player \<and> creatures (battlefield player) \<noteq> []
      then [DeclareAttackersAction (player_id player) (creatures (battlefield player))]
      else [])"

definition generate_attack_actions :: "PlayerState \<Rightarrow> bool \<Rightarrow> Action list" where
  "generate_attack_actions player is_active_player =
     (if is_active_player \<and> can_attack player \<and> creatures (battlefield player) \<noteq> []
      then [DeclareAttackersAction (player_id player) (creatures (battlefield player))]
      else [])"

definition generate_block_actions :: "PlayerState \<Rightarrow> bool \<Rightarrow> Action list" where
  "generate_block_actions player is_active_player =
     (if \<not> is_active_player \<and> creatures (battlefield player) \<noteq> []
      then [DeclareBlockersAction (player_id player) []]
      else [])"

definition generate_damage_actions :: "PlayerState \<Rightarrow> bool \<Rightarrow> Action list" where
  "generate_damage_actions player is_active_player =
     map (\<lambda>creature. AssignDamageAction (player_id player) creature)
         (filter (\<lambda>creature. case power creature of None \<Rightarrow> False | Some n \<Rightarrow> n \<noteq> 0 \<and> n > 0)
                 (creatures (battlefield player)))"

text \<open>\<open>_can_draw_card\<close> is constantly True and \<open>_can_scry\<close> constantly False.\<close>

definition generate_always_available_actions :: "PlayerState \<Rightarrow> Action list" where
  "generate_always_available_actions player =
     [PassPriorityAction (player_id player), ConcedeAction (player_id player),
      DrawCardAction (player_id player)]"

definition validate_basic_requirements :: "GameState \<Rightarrow> Action \<Rightarrow> bool" where
  "validate_basic_requirements gs action =
     (if \<not> is_game_active gs then False
      else (case get_player gs (action_player_id action) of
              None \<Rightarrow> False
            | Some player \<Rightarrow> if \<not> is_alive player then False else True))"

text \<open>
  \<open>_validate_timing\<close>. The list literal of the \<open>COMBAT_PHASE\<close> branch contains
  \<open>Phase.END_COMBAT\<close>, so that branch raises before the membership test.
\<close>

definition validate_timing :: "GameState \<Rightarrow> Action \<Rightarrow> py_error + bool" where
  "validate_timing gs action =
     (if timing action = MAIN_PHASE then
        Inr (current_phase gs \<in> {Some FIRST_MAIN, Some SECOND_MAIN})
      else if timing action = COMBAT_PHASE then
        (case Phase_END_COMBAT of
           Inl e \<Rightarrow> Inl e
         | Inr end_combat \<Rightarrow>
             Inr (current_phase gs \<in> {Some COMBAT_BEGIN, Some DECLARE_ATTACKERS,
                                        Some DECLARE_BLOCKERS, Some COMBAT_DAMAGE,
                                        Some end_combat}))
      else if timing action = T_DECLARE_ATTACKERS then
        Inr (current_phase gs = Some DECLARE_ATTACKERS)
      else if timing action = T_DECLARE_BLOCKERS then
        Inr (current_phase gs = Some DECLARE_BLOCKERS)
      else if timing action = T_COMBAT_DAMAGE then
        Inr (current_phase gs = Some COMBAT_DAMAGE)
      else Inr True)"

definition validate_play_land :: "GameState \<Rightarrow> int \<Rightarrow> CardInfo \<Rightarrow> bool" where
  "validate_play_land gs pid crd =
     (case get_player gs pid of
        None \<Rightarrow> False
      | Some player \<Rightarrow>
          (if \<not> can_play_land player then False
           else if hand_get_card (instance_id crd) (hand player) = None then False
           else if LAND \<notin> set (card_types crd) then False
           else True))"

definition validate_cast_spell :: "GameState \<Rightarrow> int \<Rightarrow> CardInfo \<Rightarrow> bool" where
  "validate_cast_spell gs pid spell =
     (case get_player gs pid of
        None \<Rightarrow> False
      | Some player \<Rightarrow>
          (if hand_get_card (instance_id spell) (hand player) = None then False
           else if \<not> engine_can_pay_mana_cost (mana_cost spell) player then False
           else True))"

definition validate_activate_ability :: "GameState \<Rightarrow> int \<Rightarrow> CardInfo \<Rightarrow> string \<Rightarrow> bool" where
  "validate_activate_ability gs pid source ability =
     (case get_player gs pid of
        None \<Rightarrow> False
      | Some player \<Rightarrow>
          (if battlefield_get_card (instance_id source) (battlefield player) = None then False
           else if \<not> can_use_ability ability player then False
           else True))"

definition validate_declare_attackers :: "GameState \<Rightarrow> int \<Rightarrow> CardInfo list \<Rightarrow> bool" where
  "validate_declare_attackers gs pid attackers =
     (case get_player gs pid of
        None \<Rightarrow> False
      | Some player \<Rightarrow>
          (if active_player gs \<noteq> Some pid then False
           else if \<not> can_attack player then False
           else list_all (\<lambda>attacker. battlefield_get_card (instance_id attacker)
                                        (battlefield player) \<noteq> None) attackers))"

definition validate_declare_blockers :: "GameState \<Rightarrow> int \<Rightarrow> (int \<times> int list) list \<Rightarrow> bool" where
  "validate_declare_blockers gs pid blocks =
     (case get_player gs pid of
        None \<Rightarrow> False
      | Some player \<Rightarrow>
          (if active_player gs = Some pid then False
           else list_all (\<lambda>(attacker_id, blocker_ids).
                   list_all (\<lambda>blocker_id. battlefield_get_card blocker_id
                                             (battlefield player) \<noteq> None) blocker_ids)
                 blocks))"

fun validate_action_type :: "GameState \<Rightarrow> Action \<Rightarrow> bool" where
  "validate_action_type gs (PlayLandAction pid crd lt) = validate_play_land gs pid crd"
| "validate_action_type gs (CastSpellAction pid spell cost) = validate_cast_spell gs pid spell"
| "validate_action_type gs (ActivateAbilityAction pid source ability) =
     validate_activate_ability gs pid source ability"
| "validate_action_type gs (DeclareAttackersAction pid attackers) =
     validate_declare_attackers gs pid attackers"
| "validate_action_type gs (DeclareBlockersAction pid blocks) =
     validate_declare_blockers gs pid blocks"
| "validate_action_type gs (AssignDamageAction pid source) = True"
| "validate_action_type gs (PassPriorityAction pid) = True"
| "validate_action_type gs (ConcedeAction pid) = True"
| "validate_action_type gs (DrawCardAction pid) = True"
| "validate_action_type gs (ScryAction pid) = True"

text \<open>\<open>_validate_resources\<close>: only \<open>CastSpellAction\<close> has a \<open>mana_cost\<close> attribute.\<close>

fun validate_resources :: "GameState \<Rightarrow> Action \<Rightarrow> bool" where
  "validate_resources gs (CastSpellAction pid spell cost) =
     (case get_player gs pid of
        None \<Rightarrow> False
      | Some player \<Rightarrow>
          (if cost \<noteq> [] \<and> \<not> engine_can_pay_mana_cost cost player then False else True))"
| "validate_resources gs action =
     (case get_player gs (action_player_id action) of None \<Rightarrow> False | Some player \<Rightarrow> True)"

definition validate_targets :: "GameState \<Rightarrow> Action \<Rightarrow> bool" where
  "validate_targets gs action = True"

definition is_action_legal_body :: "GameState \<Rightarrow> Action \<Rightarrow> py_error + bool" where
  "is_action_legal_body gs action =
     (if \<not> validate_basic_requirements gs action then Inr False
      else (case validate_timing gs action of
              Inl e \<Rightarrow> Inl e
            | Inr timing_ok \<Rightarrow>
                if \<not> timing_ok then Inr False
                else if \<not> validate_action_type gs action then Inr False
                else if \<not> validate_resources gs action then Inr False
                else if \<not> validate_targets gs action then Inr False
                else Inr True))"

text \<open>\<open>is_action_legal\<close>: an exception is logged and the answer is False.\<close>

definition is_action_legal :: "GameState \<Rightarrow> Action \<Rightarrow> bool" where
  "is_action_legal gs action =
     (case is_action_legal_body gs action of Inl e \<Rightarrow> False | Inr b \<Rightarrow> b)"

definition candidate_actions :: "GameState \<Rightarrow> PlayerState \<Rightarrow> bool \<Rightarrow> py_error + Action list" where
  "candidate_actions gs player is_active_player =
     (case (if current_phase gs = Some FIRST_MAIN \<or> current_phase gs = Some SECOND_MAIN
            then generate_main_phase_actions player is_active_player
            else if current_phase gs = Some COMBAT_BEGIN
            then Inr (generate_combat_phase_actions player is_active_player)
            else if current_phase gs = Some DECLARE_ATTACKERS
            then Inr (generate_attack_actions player is_active_player)
            else if current_phase gs = Some DECLARE_BLOCKERS
            then Inr (generate_block_actions player is_active_player)
            else if current_phase gs = Some COMBAT_DAMAGE
            then Inr (generate_damage_actions player is_active_player)
            else Inr []) of
        Inl e \<Rightarrow> Inl e
      | Inr acts \<Rightarrow> Inr (acts @ generate_always_available_actions player))"

text \<open>
  \<open>_generate_legal_actions\<close>: the candidates of the phase and the always available
  actions, filtered by \<open>is_action_legal\<close>; an exception anywhere in the \<open>try\<close> is
  logged and the result is the empty list.
\<close>

definition generate_legal_actions :: "GameState \<Rightarrow> int \<Rightarrow> Action list" where
  "generate_legal_actions gs pid =
     (case get_player gs pid of
        None \<Rightarrow> []
      | Some player \<Rightarrow>
          (case candidate_actions gs player (active_player gs = Some pid) of
             Inl e \<Rightarrow> []
           | Inr acts \<Rightarrow> filter (is_action_legal gs) acts))"

section \<open>Card restrictions (rules/card\_restrictions.py)\<close>

text \<open>\<open>_is_legendary\<close> reads \<open>card.type_line\<close>.\<close>

definition is_legendary :: "CardInfo \<Rightarrow> py_error + bool" where
  "is_legendary crd =
     (case type_line crd of
        None \<Rightarrow> Inl AttributeError
      | Some t \<Rightarrow> Inr (contains ''legendary'' (lower t)))"

text \<open>
  \<open>_can_play_legendary\<close>: the loop over the battlefield tests the name first and calls
  \<open>_is_legendary\<close> on a card of the same name only.
\<close>

fun legendary_scan :: "CardInfo \<Rightarrow> CardInfo list \<Rightarrow> py_error + bool" where
  "legendary_scan crd [] = Inr True"
| "legendary_scan crd (battlefield_card # rest) =
     (if name battlefield_card = name crd then
        (case is_legendary battlefield_card of
           Inl e \<Rightarrow> Inl e
         | Inr leg \<Rightarrow> if leg then Inr False else legendary_scan crd rest)
      else legendary_scan crd rest)"

definition can_play_legendary :: "CardInfo \<Rightarrow> PlayerState \<Rightarrow> py_error + bool" where
  "can_play_legendary crd player = legendary_scan crd (get_all_cards (battlefield player))"

definition can_play_planeswalker :: "CardInfo \<Rightarrow> PlayerState \<Rightarrow> bool" where
  "can_play_planeswalker crd player =
     (\<not> list_ex (\<lambda>battlefield_card. name battlefield_card = name crd
                     \<and> PLANESWALKER \<in> set (card_types battlefield_card))
                (get_all_cards (battlefield player)))"

definition check_basic_restrictions :: "CardInfo \<Rightarrow> PlayerState \<Rightarrow> bool" where
  "check_basic_restrictions crd player =
     (if int (length (cards (hand player))) \<ge> max_hand_size player then False
      else if hand_get_card (instance_id crd) (hand player) = None then False
      else True)"

definition check_card_specific_restrictions :: "CardInfo \<Rightarrow> PlayerState \<Rightarrow> py_error + bool" where
  "check_card_specific_restrictions crd player =
     (case is_legendary crd of
        Inl e \<Rightarrow> Inl e
      | Inr leg \<Rightarrow>
          (case (if leg then can_play_legendary crd player else Inr True) of
             Inl e \<Rightarrow> Inl e
           | Inr legendary_ok \<Rightarrow>
               if \<not> legendary_ok then Inr False
               else if PLANESWALKER \<in> set (card_types crd) \<and> \<not> can_play_planeswalker crd player
               then Inr False
               else if LAND \<in> set (card_types crd) \<and> \<not> can_play_land player then Inr False
               else Inr True))"

definition check_zone_restrictions :: "CardInfo \<Rightarrow> PlayerState \<Rightarrow> bool" where
  "check_zone_restrictions crd player =
     (if zone_type crd \<noteq> Some HAND then False
      else if hand_get_card (instance_id crd) (hand player) = None then False
      else True)"

definition check_timing_restrictions :: "GameState \<Rightarrow> CardInfo \<Rightarrow> PlayerState \<Rightarrow> bool" where
  "check_timing_restrictions gs crd player =
     (if active_player gs \<noteq> Some (player_id player) then False
      else if \<not> (active_player gs = Some (player_id player)) then False
      else True)"

definition can_play_card_body :: "GameState \<Rightarrow> CardInfo \<Rightarrow> PlayerState \<Rightarrow> py_error + bool" where
  "can_play_card_body gs crd player =
     (if \<not> check_basic_restrictions crd player then Inr False
      else (case check_card_specific_restrictions crd player of
              Inl e \<Rightarrow> Inl e
            | Inr specific_ok \<Rightarrow>
                if \<not> specific_ok then Inr False
                else if \<not> check_zone_restrictions crd player then Inr False
                else if \<not> check_timing_restrictions gs crd player then Inr False
                else Inr True))"

text \<open>\<open>can_play_card\<close>: an exception is logged and the answer is False.\<close>

definition can_play_card :: "GameState \<Rightarrow> CardInfo \<Rightarrow> PlayerState \<Rightarrow> bool" where
  "can_play_card gs crd player =
     (case can_play_card_body gs crd player of Inl e \<Rightarrow> False | Inr b \<Rightarrow> b)"

section \<open>Event processing (state/game\_state.py)\<close>

datatype GameEvent =
  GameStartEvent int int
  | GameEndEvent
  | DrawCardEvent int CardInfo
  | PlayCardEvent int CardInfo
  | LifeChangeEvent int int
  | PhaseChangeEvent Phase "string option"
  | TurnChangeEvent int int
  | OtherEvent

text \<open>
  game\_state.py imports \<open>GameEvent, EventType, Phase, ZoneType, CardInfo\<close> from
  parser.events and never \<open>CardType\<close>; \<open>_process_play_card\<close> evaluates \<open>CardType.LAND\<close>,
  which raises \<open>NameError\<close>.
\<close>

definition game_state_CardType_LAND :: "py_error + CardType" where
  "game_state_CardType_LAND = Inl NameError"

definition new_PlayerState :: "int \<Rightarrow> int \<Rightarrow> PlayerState" where
  "new_PlayerState pid life =
     \<lparr>player_id = pid, life_total = life, max_hand_size = 7,
      hand = \<lparr>cards = [], max_size = 7\<rparr>,
      battlefield = \<lparr>creatures = [], lands = [], artifacts = [], enchantments = [],
                     planeswalkers = [], other = []\<rparr>,
      mana_pool = \<lparr>white = 0, blue = 0, black = 0, red = 0, green = 0, colorless = 0\<rparr>,
      has_played_land_this_turn = False, has_attacked_this_turn = False,
      has_used_ability_this_turn = {}, energy_counters = 0\<rparr>"

definition new_GameState :: GameState where
  "new_GameState =
     \<lparr>status = WAITING, turn_number = 0, current_phase = None, current_step = None,
      active_player = None, priority_player = None, self_player = None,
      opponent_player = None\<rparr>"

definition initialize_game :: "int \<Rightarrow> int \<Rightarrow> int \<Rightarrow> GameState \<Rightarrow> bool \<times> GameState" where
  "initialize_game self_player_id opponent_player_id starting_life gs =
     (True, gs\<lparr>status := ACTIVE, turn_number := 0,
               self_player := Some (new_PlayerState self_player_id starting_life),
               opponent_player := Some (new_PlayerState opponent_player_id starting_life)\<rparr>)"

definition set_active_player :: "int \<Rightarrow> GameState \<Rightarrow> bool \<times> GameState" where
  "set_active_player pid gs =
     (case get_player gs pid of
        Some player \<Rightarrow> (True, gs\<lparr>active_player := Some pid\<rparr>)
      | None \<Rightarrow> (False, gs))"

definition process_game_start :: "int \<Rightarrow> int \<Rightarrow> GameState \<Rightarrow> GameState" where
  "process_game_start player_life opponent_life gs =
     gs\<lparr>self_player := map_option (\<lambda>p. p\<lparr>life_total := player_life\<rparr>) (self_player gs),
        opponent_player := map_option (\<lambda>p. p\<lparr>life_total := opponent_life\<rparr>) (opponent_player gs),
        status := ACTIVE\<rparr>"

definition process_draw_card :: "int \<Rightarrow> CardInfo \<Rightarrow> GameState \<Rightarrow> GameState" where
  "process_draw_card pid crd gs =
     update_player gs pid (\<lambda>p. p\<lparr>hand := snd (hand_add_card crd (hand p))\<rparr>)"

text \<open>
  \<open>_process_play_card\<close> returns its result or the exception it raises, together with the
  game state at that moment: the card has left the hand and entered the battlefield
  before \<open>CardType.LAND\<close> is evaluated.
\<close>

definition process_play_card :: "int \<Rightarrow> CardInfo \<Rightarrow> GameState \<Rightarrow> (py_error + bool) \<times> GameState" where
  "process_play_card pid crd gs =
     (case get_player gs pid of
        None \<Rightarrow> (Inr True, gs)
      | Some player \<Rightarrow>
          (case fst (hand_remove_card (instance_id crd) (hand player)) of
             None \<Rightarrow> (Inr True, gs)
           | Some removed_card \<Rightarrow>
               (let gs1 = update_player gs pid
                            (\<lambda>p. p\<lparr>hand := snd (hand_remove_card (instance_id crd) (hand p)),
                                   battlefield := add_card crd (battlefield p)\<rparr>)
                in (case game_state_CardType_LAND of
                      Inl e \<Rightarrow> (Inl e, gs1)
                    | Inr land \<Rightarrow>
                        (Inr True,
                         if land \<in> set (card_types crd)
                         then update_player gs1 pid (\<lambda>p. p\<lparr>has_played_land_this_turn := True\<rparr>)
                         else gs1)))))"

definition process_life_change :: "int \<Rightarrow> int \<Rightarrow> GameState \<Rightarrow> GameState" where
  "process_life_change pid new_life gs =
     update_player gs pid (\<lambda>p. p\<lparr>life_total := new_life\<rparr>)"

definition process_turn_change :: "int \<Rightarrow> int \<Rightarrow> GameState \<Rightarrow> GameState" where
  "process_turn_change new_turn pid gs =
     snd (set_active_player pid (gs\<lparr>turn_number := new_turn\<rparr>))"

text \<open>\<open>process_event\<close>: an exception is printed and the answer is False.\<close>

fun process_event :: "GameEvent \<Rightarrow> GameState \<Rightarrow> bool \<times> GameState" where
  "process_event (GameStartEvent player_life opponent_life) gs =
     (True, process_game_start player_life opponent_life gs)"
| "process_event GameEndEvent gs = (True, gs\<lparr>status := ENDED\<rparr>)"
| "process_event (DrawCardEvent pid crd) gs = (True, process_draw_card pid crd gs)"
| "process_event (PlayCardEvent pid crd) gs =
     (case process_play_card pid crd gs of
        (Inl e, gs') \<Rightarrow> (False, gs')
      | (Inr b, gs') \<Rightarrow> (b, gs'))"
| "process_event (LifeChangeEvent pid new_life) gs = (True, process_life_change pid new_life gs)"
| "process_event (PhaseChangeEvent new_phase new_step) gs = (True, set_phase new_phase new_step gs)"
| "process_event (TurnChangeEvent new_turn pid) gs = (True, process_turn_change new_turn pid gs)"
| "process_event OtherEvent gs = (True, gs)"

text \<open>The states that a sequence of events reaches.\<close>

fun process_events :: "GameEvent list \<Rightarrow> GameState \<Rightarrow> GameState" where
  "process_events [] gs = gs"
| "process_events (event # events) gs = process_events events (snd (process_event event gs))"




section \<open>Notions used to state the properties\<close>

text \<open>
  The invariant of a mana pool (no counter is negative), its six counters in the
  precedence order of the payment code, and the pool after the coloured pips of a cost
  have been debited.
\<close>

definition pool_nonneg :: "ManaPool \<Rightarrow> bool" where
  "pool_nonneg p =
     (0 \<le> white p \<and> 0 \<le> blue p \<and> 0 \<le> black p \<and> 0 \<le> red p \<and> 0 \<le> green p
      \<and> 0 \<le> colorless p)"

definition counters :: "ManaPool \<Rightarrow> int list" where
  "counters p = [white p, blue p, black p, red p, green p, colorless p]"

definition debit_colored :: "ManaCost \<Rightarrow> ManaPool \<Rightarrow> ManaPool" where
  "debit_colored cost pool =
     pool\<lparr>white := white pool - int (c_white cost), blue := blue pool - int (c_blue cost),
          black := black pool - int (c_black cost), red := red pool - int (c_red cost),
          green := green pool - int (c_green cost),
          colorless := colorless pool - int (c_colorless cost)\<rparr>"

text \<open>
  Greedy payment of \<open>n\<close> generic pips in the words of the specification: the counters
  are visited in their fixed order, and each gives as much as it holds before the
  next one is touched.
\<close>

fun greedy_drain :: "nat \<Rightarrow> int list \<Rightarrow> int list" where
  "greedy_drain n [] = []"
| "greedy_drain n (x # xs) =
     (x - int (min n (nat x))) # greedy_drain (n - min n (nat x)) xs"

text \<open>
  \<open>TimingRules(game_state)\<close>, and the game of the test suite: \<open>initialize_game(1, 2, 20)\<close>
  followed by \<open>set_active_player(1)\<close>, also with the phase set to the first main phase.
\<close>

definition new_TimingRules :: "GameState \<Rightarrow> TimingRules" where
  "new_TimingRules gs = \<lparr>game_state = gs, priority_passed = {}, current_priority_player = None\<rparr>"

definition started_game :: GameState where
  "started_game = snd (set_active_player 1 (snd (initialize_game 1 2 20 new_GameState)))"

definition main_phase_game :: GameState where
  "main_phase_game = set_phase FIRST_MAIN None started_game"

text \<open>
  The player from whom \<open>_move_to_next_player\<close> rotates: \<open>priority_player\<close>, or the
  active player while that is unset.
\<close>

definition priority_holder :: "GameState \<Rightarrow> int option" where
  "priority_holder gs =
     (case priority_player gs of None \<Rightarrow> active_player gs | Some c \<Rightarrow> Some c)"


definition plains :: CardInfo where
  "plains =
     \<lparr>instance_id = 1, name = ''Plains'', mana_cost = [], power = None,
      card_types = [LAND], abilities = [], zone_type = Some HAND, type_line = None\<rparr>"

definition land_in_hand_game :: GameState where
  "land_in_hand_game = process_events [DrawCardEvent 1 plains] main_phase_game"







definition player_cards :: "PlayerState \<Rightarrow> CardInfo list" where
  "player_cards p = cards (hand p) @ get_all_cards (battlefield p)"

definition all_cards :: "GameState \<Rightarrow> CardInfo list" where
  "all_cards gs =
     (case self_player gs of None \<Rightarrow> [] | Some p \<Rightarrow> player_cards p)
     @ (case opponent_player gs of None \<Rightarrow> [] | Some p \<Rightarrow> player_cards p)"


text \<open>
  The grammar of cost symbols in the words of the specification: a single letter W, U,
  B, R, G or C; a sequence of decimal digits; two parts joined by a slash, each part
  such a letter, the letter P or a digit sequence; or one of S, E and L.
\<close>

definition mana_letter :: "string \<Rightarrow> bool" where
  "mana_letter symbol = (symbol \<in> {''W'', ''U'', ''B'', ''R'', ''G'', ''C''})"

definition digit_sequence :: "string \<Rightarrow> bool" where
  "digit_sequence symbol = (symbol \<noteq> [] \<and> list_all ascii_digit symbol)"

definition grammar_side :: "string \<Rightarrow> bool" where
  "grammar_side part = (mana_letter part \<or> part = ''P'' \<or> digit_sequence part)"

definition grammar_symbol :: "string \<Rightarrow> bool" where
  "grammar_symbol symbol =
     (mana_letter symbol \<or> digit_sequence symbol
      \<or> (case split_slash symbol of
            [left, right] \<Rightarrow> grammar_side left \<and> grammar_side right
          | _ \<Rightarrow> False)
      \<or> symbol \<in> {''S'', ''E'', ''L''})"

text \<open>
  The bracketed symbols that \<open>_parse_cost\<close> reads from a cost expression, the symbols
  that are made of digits for \<open>str.isdigit\<close> without being a run of at most 4300 decimal
  digits, and what a symbol adds to the total cost.
\<close>

definition symbols_of :: "string \<Rightarrow> string list" where
  "symbols_of s = find_symbols (upper (remove_spaces s))"

definition int_raises :: "string \<Rightarrow> bool" where
  "int_raises symbol = (isdigit symbol \<and> \<not> (digit_sequence symbol \<and> length symbol \<le> 4300))"

definition symbol_weight :: "string \<Rightarrow> nat" where
  "symbol_weight symbol =
     (if mana_letter symbol then 1
      else if isdigit symbol then (case py_int symbol of Inl e \<Rightarrow> 0 | Inr n \<Rightarrow> n)
      else if CHR ''/'' \<in> set symbol \<or> CHR ''P'' \<in> set symbol \<or> CHR ''S'' \<in> set symbol then 1
      else 0)"

text \<open>
  Land cards, the land type that \<open>_get_land_type\<close> computes for a card with a type
  line, and the play-land actions of an action list.
\<close>

definition is_land :: "CardInfo \<Rightarrow> bool" where
  "is_land crd = (LAND \<in> set (card_types crd))"

definition land_type_of :: "CardInfo \<Rightarrow> string option" where
  "land_type_of land = (case get_land_type land of Inl e \<Rightarrow> None | Inr t \<Rightarrow> Some t)"

definition play_land_actions :: "Action list \<Rightarrow> Action list" where
  "play_land_actions acts = filter (\<lambda>a. action_type a = PLAY_LAND) acts"

section \<open>Damage and life (claim C10)\<close>

text \<open>
  A life total can be negative: \<open>_process_life_change\<close> stores whatever the event
  reports. After a life-change event to \<open>-1\<close>, \<open>take_damage(0)\<close> returns at its guard
  and the life total is still negative.
\<close>

theorem take_damage_negative_life_counterexample:
  "life_total (snd (take_damage 0
      (the (get_player (snd (process_event (LifeChangeEvent 1 (- 1))
                               (snd (initialize_game 1 2 20 new_GameState)))) 1)))) < 0"
  by (simp add: take_damage_def initialize_game_def new_GameState_def new_PlayerState_def
      process_life_change_def update_player_def get_player_def)

text \<open>
  C10, amended. With old life \<open>L\<close>, \<open>take_damage(amount)\<close> returns \<open>min(amount, L)\<close> and
  sets the life total to \<open>max(0, L - amount)\<close> when \<open>amount > 0\<close>, and returns 0 with the
  state unchanged when \<open>amount <= 0\<close>. Whenever \<open>L\<close> is non-negative or \<open>amount > 0\<close> the
  resulting life total is non-negative, and \<open>is_alive()\<close> is then false exactly when
  the resulting life total is 0.
\<close>

theorem take_damage_life_total:
  "take_damage amount p =
     (if 0 < amount
      then (min amount (life_total p), p\<lparr>life_total := max 0 (life_total p - amount)\<rparr>)
      else (0, p))
   \<and> (0 \<le> life_total p \<or> 0 < amount \<longrightarrow>
        0 \<le> life_total (snd (take_damage amount p))
        \<and> (\<not> is_alive (snd (take_damage amount p))
             \<longleftrightarrow> life_total (snd (take_damage amount p)) = 0))"
  by (auto simp: take_damage_def is_alive_def)

theorem take_damage_life_total_witness:
  "take_damage 5 (new_PlayerState 1 20) = (5, new_PlayerState 1 15)
   \<and> take_damage 25 (new_PlayerState 1 20) = (20, new_PlayerState 1 0)
   \<and> \<not> is_alive (snd (take_damage 25 (new_PlayerState 1 20)))
   \<and> take_damage 0 (new_PlayerState 1 20) = (0, new_PlayerState 1 20)"
  using take_damage_life_total [of 5 "new_PlayerState 1 20"]
        take_damage_life_total [of 25 "new_PlayerState 1 20"]
        take_damage_life_total [of 0 "new_PlayerState 1 20"]
  by (simp add: new_PlayerState_def is_alive_def)

section \<open>Snow mana (claim C7)\<close>

lemma snow_cost:
  "new_ManaCost ''{S}'' =
     Inr \<lparr>cost_string = ''{S}'', c_white = 0, c_blue = 0, c_black = 0, c_red = 0,
          c_green = 0, c_colorless = 0, c_generic = 0, c_hybrid = [],
          c_phyrexian = [], c_snow = 1, c_energy = 0, c_life = 0\<rparr>"
  by code_simp

text \<open>
  The cost \<open>{S}\<close> has a snow count of 1 and no other component. A fresh player at 20 life
  cannot pay it: \<open>can_pay_cost\<close> answers False, and so does \<open>pay_cost\<close>.
\<close>

theorem snow_cost_unpayable_counterexample:
  "\<not> can_pay_cost ''{S}'' (new_PlayerState 1 20)
   \<and> pay_cost ''{S}'' (new_PlayerState 1 20) = (False, new_PlayerState 1 20)"
  by (simp add: can_pay_cost_def pay_cost_def can_pay_mana_cost_def can_pay_snow_mana_def
      snow_cost split: sum.splits)

text \<open>
  C7, amended. The snow component of a cost is satisfied exactly when the snow count
  is 0, whatever the player's state: a cost expression whose parsed snow count is
  positive is reported unpayable by \<open>can_pay_cost\<close>, and \<open>pay_cost\<close> returns False and
  leaves the player unchanged.
\<close>

theorem snow_satisfied_only_when_zero:
  "(can_pay_snow_mana cost player \<longleftrightarrow> c_snow cost = 0)
   \<and> (new_ManaCost s = Inr parsed \<and> 0 < c_snow parsed \<longrightarrow>
        \<not> can_pay_cost s player \<and> pay_cost s player = (False, player))"
proof -
  have "\<not> can_pay_cost s player \<and> pay_cost s player = (False, player)"
    if p: "new_ManaCost s = Inr parsed" and snow: "0 < c_snow parsed"
  proof -
    have "s \<noteq> []"
      using p snow by (auto simp: new_ManaCost_def parse_cost_def)
    moreover have "can_pay_mana_cost parsed player \<noteq> Inr True"
      using snow
      by (auto simp: can_pay_mana_cost_def can_pay_snow_mana_def split: sum.splits)
    ultimately show ?thesis
      using p
      by (cases "can_pay_mana_cost parsed player")
         (auto simp: can_pay_cost_def pay_cost_def)
  qed
  then show ?thesis
    by (auto simp: can_pay_snow_mana_def)
qed

theorem snow_satisfied_only_when_zero_witness:
  "new_ManaCost ''{S}'' = Inr (projr (new_ManaCost ''{S}''))
   \<and> 0 < c_snow (projr (new_ManaCost ''{S}''))
   \<and> \<not> can_pay_cost ''{S}'' (new_PlayerState 1 20)
   \<and> pay_cost ''{S}'' (new_PlayerState 1 20) = (False, new_PlayerState 1 20)"
  using snow_satisfied_only_when_zero
          [of "projr (new_ManaCost ''{S}'')" "new_PlayerState 1 20" "''{S}''"
              "projr (new_ManaCost ''{S}'')"]
  by (simp add: snow_cost)

section \<open>Generic pips are paid greedily (claim C8)\<close>

lemma greedy_drain_zero: "greedy_drain 0 xs = xs"
  by (induction xs) auto

lemma greedy_drain_step:
  "0 \<le> x \<Longrightarrow> greedy_drain (Suc n) (x # xs) =
     (if 0 < x then greedy_drain n ((x - 1) # xs) else x # greedy_drain (Suc n) xs)"
  by (auto simp: min_def nat_le_iff Suc_diff_le nat_diff_distrib)

lemma greedy_drain_zero_head: "greedy_drain n (0 # xs) = 0 # greedy_drain n xs"
  by simp

lemma debit_first_positive_None:
  "pool_nonneg p \<Longrightarrow> debit_first_positive p = None \<longleftrightarrow> total_mana p = 0"
  by (auto simp: debit_first_positive_def pool_nonneg_def total_mana_def)

lemma debit_first_positive_Some:
  assumes "pool_nonneg p" "debit_first_positive p = Some p'"
  shows "pool_nonneg p' \<and> total_mana p' = total_mana p - 1
         \<and> greedy_drain (Suc n) (counters p) = greedy_drain n (counters p')"
  using assms
  by (auto simp: debit_first_positive_def pool_nonneg_def total_mana_def counters_def
        greedy_drain_step greedy_drain_zero_head
      simp del: greedy_drain.simps split: if_splits)

text \<open>The loop pays one pip per round from the first positive counter.\<close>

lemma pay_generic_greedy:
  "pool_nonneg p \<Longrightarrow> int n \<le> total_mana p \<Longrightarrow>
     fst (pay_generic n p) \<and> counters (snd (pay_generic n p)) = greedy_drain n (counters p)"
proof (induction n arbitrary: p)
  case 0
  then show ?case by (simp add: greedy_drain_zero)
next
  case (Suc n)
  from Suc.prems have "total_mana p \<noteq> 0" by simp
  with Suc.prems obtain p' where p': "debit_first_positive p = Some p'"
    using debit_first_positive_None [of p] by auto
  from debit_first_positive_Some [OF Suc.prems(1) p', of n]
  have a: "pool_nonneg p'" "total_mana p' = total_mana p - 1"
     "greedy_drain (Suc n) (counters p) = greedy_drain n (counters p')" by auto
  with Suc.prems have "int n \<le> total_mana p'" by simp
  from Suc.IH [OF a(1) this] show ?case using p' a(3) by simp
qed

lemma pay_basic_mana_eq:
  "pay_basic_mana cost player =
     (fst (pay_generic (c_generic cost) (debit_colored cost (mana_pool player))),
      player\<lparr>mana_pool :=
               snd (pay_generic (c_generic cost) (debit_colored cost (mana_pool player)))\<rparr>)"
  by (simp add: pay_basic_mana_def debit_colored_def Let_def split: prod.splits)

lemma can_pay_basic_debit:
  "can_pay_basic_mana cost player \<Longrightarrow>
     pool_nonneg (debit_colored cost (mana_pool player))
     \<and> int (c_generic cost) \<le> total_mana (debit_colored cost (mana_pool player))"
  by (simp add: can_pay_basic_mana_def debit_colored_def pool_nonneg_def total_mana_def
      split: if_splits)

lemma cost_2WW:
  "new_ManaCost ''{2}{W}{W}'' =
     Inr \<lparr>cost_string = ''{2}{W}{W}'', c_white = 2, c_blue = 0, c_black = 0, c_red = 0,
          c_green = 0, c_colorless = 0, c_generic = 2, c_hybrid = [],
          c_phyrexian = [], c_snow = 0, c_energy = 0, c_life = 0\<rparr>"
  by code_simp

text \<open>
  C8. Whenever the basic part of a cost is payable, \<open>_pay_basic_mana\<close> succeeds and,
  after the coloured pips, takes the generic pips from the counters in the order white,
  blue, black, red, green, colorless, emptying each counter before it touches the next.
  Paying \<open>{2}{W}{W}\<close> (total cost 4) from a pool with white 2 and colorless 2, by a
  player whose life and energy are not negative, succeeds and leaves white 0 and
  colorless 0.
\<close>

theorem generic_paid_in_precedence_order:
  "(can_pay_basic_mana cost player \<longrightarrow>
      fst (pay_basic_mana cost player)
      \<and> counters (mana_pool (snd (pay_basic_mana cost player)))
          = greedy_drain (c_generic cost) (counters (debit_colored cost (mana_pool player))))
   \<and> (0 \<le> life_total player \<and> 0 \<le> energy_counters player \<longrightarrow>
        map_sum id get_total_cost (new_ManaCost ''{2}{W}{W}'') = Inr 4
        \<and> can_pay_cost ''{2}{W}{W}''
             (player\<lparr>mana_pool := \<lparr>white = 2, blue = 0, black = 0, red = 0, green = 0,
                                    colorless = 2\<rparr>\<rparr>)
        \<and> pay_cost ''{2}{W}{W}''
             (player\<lparr>mana_pool := \<lparr>white = 2, blue = 0, black = 0, red = 0, green = 0,
                                    colorless = 2\<rparr>\<rparr>)
           = (True, player\<lparr>mana_pool := \<lparr>white = 0, blue = 0, black = 0, red = 0,
                                           green = 0, colorless = 0\<rparr>\<rparr>))"
proof -
  have general: "fst (pay_basic_mana cost player)
      \<and> counters (mana_pool (snd (pay_basic_mana cost player)))
          = greedy_drain (c_generic cost) (counters (debit_colored cost (mana_pool player)))"
    if "can_pay_basic_mana cost player"
    using pay_generic_greedy [of "debit_colored cost (mana_pool player)" "c_generic cost"]
      can_pay_basic_debit [OF that]
    by (simp add: pay_basic_mana_eq)
  have gen2: "pay_generic 2 \<lparr>white = 0, blue = 0, black = 0, red = 0, green = 0, colorless = 2\<rparr>
     = (True, \<lparr>white = 0, blue = 0, black = 0, red = 0, green = 0, colorless = 0\<rparr>)"
    by (simp add: numeral_2_eq_2 debit_first_positive_def)
  have concrete: "map_sum id get_total_cost (new_ManaCost ''{2}{W}{W}'') = Inr 4
        \<and> can_pay_cost ''{2}{W}{W}''
             (player\<lparr>mana_pool := \<lparr>white = 2, blue = 0, black = 0, red = 0, green = 0,
                                    colorless = 2\<rparr>\<rparr>)
        \<and> pay_cost ''{2}{W}{W}''
             (player\<lparr>mana_pool := \<lparr>white = 2, blue = 0, black = 0, red = 0, green = 0,
                                    colorless = 2\<rparr>\<rparr>)
           = (True, player\<lparr>mana_pool := \<lparr>white = 0, blue = 0, black = 0, red = 0,
                                           green = 0, colorless = 0\<rparr>\<rparr>)"
    if "0 \<le> life_total player" "0 \<le> energy_counters player"
    using that
    by (simp add: cost_2WW get_total_cost_def can_pay_cost_def pay_cost_def can_pay_mana_cost_def
        can_pay_basic_mana_def can_pay_hybrid_mana_def can_pay_phyrexian_mana_def
        can_pay_snow_mana_def can_pay_energy_def can_pay_life_def total_mana_def
        pay_mana_cost_def pay_basic_mana_def pay_hybrid_mana_def pay_phyrexian_mana_def
        pay_hybrid_list.simps pay_phyrexian_list.simps can_pay_hybrid_list.simps
        pay_snow_mana_def pay_energy_def pay_life_def take_damage_def gen2)
  from general concrete show ?thesis by blast
qed

theorem generic_paid_in_precedence_order_witness:
  "can_pay_basic_mana (projr (new_ManaCost ''{2}{W}{W}''))
     ((new_PlayerState 1 20)\<lparr>mana_pool := \<lparr>white = 2, blue = 0, black = 0, red = 0,
                                             green = 0, colorless = 2\<rparr>\<rparr>)
   \<and> counters (mana_pool (snd (pay_basic_mana (projr (new_ManaCost ''{2}{W}{W}''))
        ((new_PlayerState 1 20)\<lparr>mana_pool := \<lparr>white = 2, blue = 0, black = 0, red = 0,
                                                green = 0, colorless = 2\<rparr>\<rparr>))))
       = [0, 0, 0, 0, 0, 0]
   \<and> 0 \<le> life_total (new_PlayerState 1 20) \<and> 0 \<le> energy_counters (new_PlayerState 1 20)
   \<and> pay_cost ''{2}{W}{W}''
        ((new_PlayerState 1 20)\<lparr>mana_pool := \<lparr>white = 2, blue = 0, black = 0, red = 0,
                                                green = 0, colorless = 2\<rparr>\<rparr>)
      = (True, new_PlayerState 1 20)"
  using generic_paid_in_precedence_order
          [of "projr (new_ManaCost ''{2}{W}{W}'')"
              "(new_PlayerState 1 20)\<lparr>mana_pool := \<lparr>white = 2, blue = 0, black = 0, red = 0,
                                                      green = 0, colorless = 2\<rparr>\<rparr>"]
        generic_paid_in_precedence_order
          [of "projr (new_ManaCost ''{2}{W}{W}'')" "new_PlayerState 1 20"]
  by (simp add: cost_2WW can_pay_basic_mana_def total_mana_def debit_colored_def counters_def
      new_PlayerState_def)

section \<open>Payment is not all-or-nothing (claim C1)\<close>

text \<open>What the guard of \<open>pay_cost\<close> does give: a cost that fails the check is not paid.\<close>

lemma pay_cost_refused_unchanged:
  "\<not> can_pay_cost s player \<Longrightarrow> pay_cost s player = (False, player)"
  by (auto simp: can_pay_cost_def pay_cost_def split: sum.splits)

text \<open>
  C1 at pool \<open>{white: 1}\<close> and cost \<open>{W/U}{W/U}\<close>. \<open>_can_pay_hybrid_mana\<close> tests each
  hybrid symbol on its own against the untouched pool, so the check passes; the first
  symbol then takes the only white mana, the second finds neither option payable, and
  \<open>pay_cost\<close> returns False with white at 0.
\<close>

theorem hybrid_payment_partial_debit:
  "can_pay_cost ''{W/U}{W/U}''
     ((new_PlayerState 1 20)\<lparr>mana_pool := \<lparr>white = 1, blue = 0, black = 0, red = 0,
                                             green = 0, colorless = 0\<rparr>\<rparr>)
   \<and> pay_cost ''{W/U}{W/U}''
        ((new_PlayerState 1 20)\<lparr>mana_pool := \<lparr>white = 1, blue = 0, black = 0, red = 0,
                                                green = 0, colorless = 0\<rparr>\<rparr>)
      = (False, (new_PlayerState 1 20)\<lparr>mana_pool := \<lparr>white = 0, blue = 0, black = 0,
                                                       red = 0, green = 0, colorless = 0\<rparr>\<rparr>)"
  by code_simp

section \<open>Parsing a cost expression (claim C4)\<close>

lemma py_int_digit_sequence:
  "py_int symbol = (if digit_sequence symbol \<and> length symbol \<le> 4300
                    then Inr (int_of_str symbol) else Inl ValueError)"
  by (auto simp: py_int_def digit_sequence_def)

lemma mana_letter_not_digit: "mana_letter symbol \<Longrightarrow> \<not> isdigit symbol"
  by (auto simp: mana_letter_def isdigit_def is_digit_def ascii_digit_def)

lemma parse_symbol_raises_iff:
  "parse_symbol c symbol = Inl e \<longleftrightarrow> e = ValueError \<and> int_raises symbol"
  using mana_letter_not_digit [of symbol]
  by (auto simp: parse_symbol_def mana_letter_def int_raises_def py_int_digit_sequence
      digit_sequence_def)

lemma parse_symbol_returns:
  "\<not> int_raises symbol \<Longrightarrow> \<exists>c'. parse_symbol c symbol = Inr c'"
  using parse_symbol_raises_iff [of c symbol] by (cases "parse_symbol c symbol") auto

lemma total_parse_symbol:
  "parse_symbol c symbol = Inr c' \<Longrightarrow>
     get_total_cost c' = get_total_cost c + symbol_weight symbol"
  by (auto simp: parse_symbol_def get_total_cost_def symbol_weight_def mana_letter_def
      split: if_splits sum.splits)

lemma total_parse_symbols:
  "map_sum id get_total_cost (parse_symbols c symbols)
     = (if list_ex int_raises symbols then Inl ValueError
        else Inr (get_total_cost c + sum_list (map symbol_weight symbols)))"
proof (induction symbols arbitrary: c)
  case Nil
  show ?case by simp
next
  case (Cons x xs)
  show ?case
  proof (cases "int_raises x")
    case True
    then have "parse_symbol c x = Inl ValueError"
      by (simp add: parse_symbol_raises_iff)
    with True show ?thesis by simp
  next
    case False
    then obtain c' where c': "parse_symbol c x = Inr c'"
      using parse_symbol_returns by blast
    from False c' Cons.IH [of c'] total_parse_symbol [OF c'] show ?thesis by simp
  qed
qed

lemma total_new_ManaCost:
  "map_sum id get_total_cost (new_ManaCost s)
     = (if list_ex int_raises (symbols_of s) then Inl ValueError
        else Inr (sum_list (map symbol_weight (symbols_of s))))"
proof (cases "s = []")
  case True
  have "symbols_of [] = []"
    by (simp add: symbols_of_def upper_def remove_spaces_def)
  with True show ?thesis
    by (simp add: new_ManaCost_def parse_cost_def get_total_cost_def)
next
  case False
  then show ?thesis
    by (simp add: new_ManaCost_def parse_cost_def total_parse_symbols symbols_of_def
        get_total_cost_def)
qed

lemma parse_symbols_append:
  "parse_symbols c (xs @ ys)
     = (case parse_symbols c xs of Inl e \<Rightarrow> Inl e | Inr c' \<Rightarrow> parse_symbols c' ys)"
  by (induction xs arbitrary: c) (auto split: sum.splits)

lemma parse_symbol_outside_grammar:
  assumes "\<not> grammar_symbol symbol"
  shows "parse_symbol c symbol =
     (if isdigit symbol then Inl ValueError
      else if CHR ''/'' \<in> set symbol then Inr (c\<lparr>c_hybrid := c_hybrid c @ [symbol]\<rparr>)
      else if CHR ''P'' \<in> set symbol then Inr (c\<lparr>c_phyrexian := c_phyrexian c @ [symbol]\<rparr>)
      else if CHR ''S'' \<in> set symbol then Inr (c\<lparr>c_snow := c_snow c + 1\<rparr>)
      else if CHR ''E'' \<in> set symbol then Inr (c\<lparr>c_energy := c_energy c + 1\<rparr>)
      else if CHR ''L'' \<in> set symbol then Inr (c\<lparr>c_life := c_life c + 1\<rparr>)
      else Inr c)"
proof -
  from assms have "\<not> mana_letter symbol" and "\<not> digit_sequence symbol"
    by (simp_all add: grammar_symbol_def)
  then show ?thesis
    by (simp add: parse_symbol_def mana_letter_def py_int_digit_sequence)
qed

lemma parse_symbols_skip:
  assumes "\<not> grammar_symbol symbol" and "\<not> isdigit symbol"
    and "set symbol \<inter> {CHR ''/'', CHR ''P'', CHR ''S'', CHR ''E'', CHR ''L''} = {}"
  shows "parse_symbols c (before @ symbol # after) = parse_symbols c (before @ after)"
proof -
  have "parse_symbol c' symbol = Inr c'" for c'
    using assms by (simp add: parse_symbol_outside_grammar)
  then show ?thesis
    by (simp add: parse_symbols_append split: sum.splits)
qed

text \<open>
  The chain of \<open>_parse_cost\<close> has no \<open>else\<close> and the module has no parse error: \<open>{X}\<close>
  and \<open>{T}\<close> are no symbols of the grammar, \<open>{2}{X}\<close> parses to a cost of total 2 with
  the components of \<open>{2}\<close>, \<open>{T}\<close> to the zero cost, and \<open>{2}{TAP}\<close> to a cost of total 3
  that counts \<open>TAP\<close> as a Phyrexian symbol.
\<close>

theorem unrecognised_symbol_no_parse_error_counterexample:
  "\<not> grammar_symbol ''X'' \<and> \<not> grammar_symbol ''T'' \<and> \<not> grammar_symbol ''TAP''
   \<and> new_ManaCost ''{2}{X}''
       = Inr \<lparr>cost_string = ''{2}{X}'', c_white = 0, c_blue = 0, c_black = 0, c_red = 0,
              c_green = 0, c_colorless = 0, c_generic = 2, c_hybrid = [], c_phyrexian = [],
              c_snow = 0, c_energy = 0, c_life = 0\<rparr>
   \<and> new_ManaCost ''{T}''
       = Inr \<lparr>cost_string = ''{T}'', c_white = 0, c_blue = 0, c_black = 0, c_red = 0,
              c_green = 0, c_colorless = 0, c_generic = 0, c_hybrid = [], c_phyrexian = [],
              c_snow = 0, c_energy = 0, c_life = 0\<rparr>
   \<and> new_ManaCost ''{2}{TAP}''
       = Inr \<lparr>cost_string = ''{2}{TAP}'', c_white = 0, c_blue = 0, c_black = 0, c_red = 0,
              c_green = 0, c_colorless = 0, c_generic = 2, c_hybrid = [],
              c_phyrexian = [''TAP''], c_snow = 0, c_energy = 0, c_life = 0\<rparr>
   \<and> map_sum id get_total_cost (new_ManaCost ''{2}{TAP}'') = Inr 3"
  by code_simp

text \<open>
  The one error of the parse is the \<open>ValueError\<close> of \<open>int\<close>: the superscript two is a
  digit for \<open>str.isdigit\<close> and no decimal digit, so the constructor raises on \<open>{\<close>, U+00B2,
  \<open>}\<close>. \<open>can_pay_cost\<close> and \<open>pay_cost\<close> catch it and answer False. The sharp s is
  upper-cased to \<open>SS\<close> and counted as a snow symbol.
\<close>

lemma superscript_digit_raises:
  "new_ManaCost [CHR ''{'', CHR 0xB2, CHR ''}''] = Inl ValueError
   \<and> \<not> can_pay_cost [CHR ''{'', CHR 0xB2, CHR ''}''] (new_PlayerState 1 20)
   \<and> map_sum id c_snow (new_ManaCost [CHR ''{'', CHR 0xDF, CHR ''}'']) = Inr 1"
  by code_simp

text \<open>
  C4, amended. Parsing a cost expression is a function of the expression that reports
  no parse error. With the bracketed symbols read after blanks are removed and the text
  is upper-cased, the constructor raises \<open>ValueError\<close> exactly when one of them is made
  of digits for \<open>str.isdigit\<close> and is not a run of at most 4300 decimal digits;
  otherwise it returns a cost. The total of a cost is the sum of its coloured pips, its
  generic amount, the number of its hybrid symbols, the number of its Phyrexian symbols
  and its snow count, and the total of the parsed cost is the sum of the weights of the
  bracketed symbols. A symbol outside the grammar is never rejected for that: made of
  digits it raises the \<open>ValueError\<close>; else with a slash it is kept as a hybrid symbol,
  else with a P as a Phyrexian symbol, else with an S it counts as snow, else with an E as
  energy, else with an L as life; a symbol with none of these (\<open>{X}\<close>, \<open>{T}\<close>) is
  skipped, the parse being the same as if the symbol were absent.
\<close>

theorem parse_raises_or_totals:
  "map_sum id get_total_cost (new_ManaCost s)
     = (if list_ex int_raises (symbols_of s) then Inl ValueError
        else Inr (sum_list (map symbol_weight (symbols_of s))))
   \<and> get_total_cost cost
       = c_white cost + c_blue cost + c_black cost + c_red cost + c_green cost
         + c_colorless cost + c_generic cost + length (c_hybrid cost)
         + length (c_phyrexian cost) + c_snow cost
   \<and> (\<not> grammar_symbol symbol \<longrightarrow>
        parse_symbol c symbol =
          (if isdigit symbol then Inl ValueError
           else if CHR ''/'' \<in> set symbol then Inr (c\<lparr>c_hybrid := c_hybrid c @ [symbol]\<rparr>)
           else if CHR ''P'' \<in> set symbol then Inr (c\<lparr>c_phyrexian := c_phyrexian c @ [symbol]\<rparr>)
           else if CHR ''S'' \<in> set symbol then Inr (c\<lparr>c_snow := c_snow c + 1\<rparr>)
           else if CHR ''E'' \<in> set symbol then Inr (c\<lparr>c_energy := c_energy c + 1\<rparr>)
           else if CHR ''L'' \<in> set symbol then Inr (c\<lparr>c_life := c_life c + 1\<rparr>)
           else Inr c)
        \<and> (\<not> isdigit symbol
             \<and> set symbol \<inter> {CHR ''/'', CHR ''P'', CHR ''S'', CHR ''E'', CHR ''L''} = {} \<longrightarrow>
             parse_symbols c (before @ symbol # after) = parse_symbols c (before @ after)))"
proof -
  have "get_total_cost cost
       = c_white cost + c_blue cost + c_black cost + c_red cost + c_green cost
         + c_colorless cost + c_generic cost + length (c_hybrid cost)
         + length (c_phyrexian cost) + c_snow cost"
    by (simp add: get_total_cost_def)
  with total_new_ManaCost [of s] parse_symbol_outside_grammar [of symbol c]
    parse_symbols_skip [of symbol c before after]
  show ?thesis by blast
qed

theorem parse_raises_or_totals_witness:
  "\<not> grammar_symbol ''X''
   \<and> \<not> isdigit ''X''
   \<and> set ''X'' \<inter> {CHR ''/'', CHR ''P'', CHR ''S'', CHR ''E'', CHR ''L''} = {}
   \<and> map_sum id get_total_cost (new_ManaCost ''{2}{X}{w}'') = Inr 3
   \<and> parse_symbol (projr (new_ManaCost [])) ''X'' = Inr (projr (new_ManaCost []))
   \<and> parse_symbols (projr (new_ManaCost [])) [''2'', ''X'', ''W'']
       = parse_symbols (projr (new_ManaCost [])) [''2'', ''W'']"
proof -
  have g: "\<not> grammar_symbol ''X''" by code_simp
  have d: "\<not> isdigit ''X''" by code_simp
  have m: "set ''X'' \<inter> {CHR ''/'', CHR ''P'', CHR ''S'', CHR ''E'', CHR ''L''} = {}"
    by simp
  have r: "\<not> list_ex int_raises (symbols_of ''{2}{X}{w}'')" by code_simp
  have w: "sum_list (map symbol_weight (symbols_of ''{2}{X}{w}'')) = 3" by code_simp
  from parse_raises_or_totals
         [of "''{2}{X}{w}''" cost "''X''" "projr (new_ManaCost [])" "[''2'']" "[''W'']"]
       g d m r w
  show ?thesis by simp
qed

section \<open>Who has priority (claim C6)\<close>

lemma player_has_priority_iff:
  "player_has_priority tr pid \<longleftrightarrow>
     active_player (game_state tr) = Some pid \<or> priority_player (game_state tr) = Some pid
     \<or> pid \<notin> priority_passed tr"
  by (simp add: player_has_priority_def)

lemma started_game_eq:
  "started_game =
     \<lparr>status = ACTIVE, turn_number = 0, current_phase = None, current_step = None,
      active_player = Some 1, priority_player = None,
      self_player = Some (new_PlayerState 1 20),
      opponent_player = Some (new_PlayerState 2 20)\<rparr>"
  by (simp add: started_game_def set_active_player_def initialize_game_def new_GameState_def
      get_player_def new_PlayerState_def)

text \<open>
  C6 in the game of the test suite. Before any pass the non-active player 2 has
  priority; after player 1, the active player, has passed and stands in the pass set,
  \<open>_player_has_priority(1)\<close> is still True, because the test for the active player
  returns before the pass set is read. The test \<open>test_priority_system\<close> asserts the
  opposite in both places.
\<close>

theorem active_player_in_pass_set_has_priority:
  "1 \<in> priority_passed (snd (pass_priority (new_TimingRules started_game) 1))
   \<and> active_player (game_state (snd (pass_priority (new_TimingRules started_game) 1))) = Some 1
   \<and> player_has_priority (snd (pass_priority (new_TimingRules started_game) 1)) 1
   \<and> player_has_priority (new_TimingRules started_game) 2"
  by (simp add: started_game_eq new_TimingRules_def pass_priority_def
      all_players_passed_priority_def players_of_def new_PlayerState_def
      move_to_next_player_def player_has_priority_def Let_def)


section \<open>Passing priority (claim C3)\<close>

lemma players_of_two:
  "self_player gs = Some a \<Longrightarrow> opponent_player gs = Some b \<Longrightarrow>
     players_of gs = [player_id a, player_id b]"
  by (simp add: players_of_def)

lemma move_to_next_player_two:
  assumes "players_of (game_state tr) = [x, y]" and "x \<noteq> y"
  shows "move_to_next_player tr =
     tr\<lparr>game_state := (game_state tr)
            \<lparr>priority_player := Some (if priority_holder (game_state tr) = Some y then x else y)\<rparr>,
        current_priority_player := Some (if priority_holder (game_state tr) = Some y then x else y)\<rparr>"
  using assms
  by (auto simp: move_to_next_player_def Let_def priority_holder_def split: option.splits)

lemma pass_priority_two_players:
  assumes "self_player (game_state tr) = Some a"
    and "opponent_player (game_state tr) = Some b"
    and "player_id a \<noteq> player_id b"
    and "(pid = player_id a \<and> other_id = player_id b) \<or> (pid = player_id b \<and> other_id = player_id a)"
  shows "pass_priority tr pid =
     (True,
      if other_id \<in> priority_passed tr
      then tr\<lparr>priority_passed := {}, game_state := advance_phase (game_state tr)\<rparr>
      else tr\<lparr>priority_passed := insert pid (priority_passed tr),
              game_state := (game_state tr)
                \<lparr>priority_player := Some (if priority_holder (game_state tr) = Some (player_id b)
                                           then player_id a else player_id b)\<rparr>,
              current_priority_player := Some (if priority_holder (game_state tr) = Some (player_id b)
                                               then player_id a else player_id b)\<rparr>)"
proof -
  let ?tr1 = "tr\<lparr>priority_passed := insert pid (priority_passed tr)\<rparr>"
  have pl: "players_of (game_state ?tr1) = [player_id a, player_id b]"
    using assms(1,2) by (simp add: players_of_two)
  show ?thesis
  proof (cases "other_id \<in> priority_passed tr")
    case True
    with assms(4) have "all_players_passed_priority ?tr1"
      using pl by (auto simp: all_players_passed_priority_def)
    with True show ?thesis
      by (simp add: pass_priority_def Let_def resolve_priority_def)
  next
    case False
    with assms(3,4) have "\<not> all_players_passed_priority ?tr1"
      using pl by (auto simp: all_players_passed_priority_def)
    with False show ?thesis
      by (simp add: pass_priority_def Let_def move_to_next_player_two [OF pl assms(3)])
  qed
qed






section \<open>The phase cycle (claim C2)\<close>

text \<open>
  What \<open>_advance_phase\<close> does: the first seven phases advance by one step; from every
  other phase the method meets \<open>Phase.END_COMBAT\<close>, and the state stays as it is.
\<close>

lemma advance_phase_cases:
  "advance_phase gs =
     (if current_phase gs = Some UNTAP then set_phase UPKEEP None gs
      else if current_phase gs = Some UPKEEP then set_phase DRAW None gs
      else if current_phase gs = Some DRAW then set_phase FIRST_MAIN None gs
      else if current_phase gs = Some FIRST_MAIN then set_phase COMBAT_BEGIN None gs
      else if current_phase gs = Some COMBAT_BEGIN then set_phase DECLARE_ATTACKERS None gs
      else if current_phase gs = Some DECLARE_ATTACKERS then set_phase DECLARE_BLOCKERS None gs
      else if current_phase gs = Some DECLARE_BLOCKERS then set_phase COMBAT_DAMAGE None gs
      else gs)"
  by (simp add: advance_phase_def advance_phase_body_def Phase_END_COMBAT_def)

lemma two_passes_resolve:
  assumes "self_player (game_state tr) = Some a"
    and "opponent_player (game_state tr) = Some b"
    and "player_id a \<noteq> player_id b"
    and "(p = player_id a \<and> q = player_id b) \<or> (p = player_id b \<and> q = player_id a)"
    and "priority_passed tr = {}"
  shows "\<exists>x. game_state (snd (pass_priority (snd (pass_priority tr p)) q))
               = advance_phase ((game_state tr)\<lparr>priority_player := Some x\<rparr>)
             \<and> priority_passed (snd (pass_priority (snd (pass_priority tr p)) q)) = {}"
proof -
  define x where "x = (if priority_holder (game_state tr) = Some (player_id b)
                        then player_id a else player_id b)"
  define tr1 where "tr1 = tr\<lparr>priority_passed := {p},
      game_state := (game_state tr)\<lparr>priority_player := Some x\<rparr>,
      current_priority_player := Some x\<rparr>"
  from assms(4) have qp: "(q = player_id a \<and> p = player_id b) \<or> (q = player_id b \<and> p = player_id a)"
    by auto
  from assms(3,4) have "q \<noteq> p" by auto
  then have first: "snd (pass_priority tr p) = tr1"
    using assms(5) by (simp add: pass_priority_two_players [OF assms(1-4)] tr1_def x_def)
  have s1: "self_player (game_state tr1) = Some a" "opponent_player (game_state tr1) = Some b"
    using assms(1,2) by (simp_all add: tr1_def)
  have "snd (pass_priority tr1 q)
          = tr1\<lparr>priority_passed := {}, game_state := advance_phase (game_state tr1)\<rparr>"
    by (simp add: pass_priority_two_players [OF s1 assms(3) qp]) (simp add: tr1_def)
  with first show ?thesis by (intro exI [of _ x]) (simp add: tr1_def)
qed

text \<open>
  C2 at the phases \<open>COMBAT_DAMAGE\<close> and \<open>CLEANUP\<close>. Both players pass in succession:
  the pass set is resolved and cleared, but the phase is still \<open>COMBAT_DAMAGE\<close>; from
  \<open>CLEANUP\<close> the phase is still \<open>CLEANUP\<close> and the turn number has not changed.
\<close>

theorem phase_does_not_advance_past_combat_damage:
  "current_phase (game_state (snd (pass_priority (snd (pass_priority
       (new_TimingRules (set_phase COMBAT_DAMAGE None started_game)) 1)) 2)))
     = Some COMBAT_DAMAGE
   \<and> priority_passed (snd (pass_priority (snd (pass_priority
       (new_TimingRules (set_phase COMBAT_DAMAGE None started_game)) 1)) 2)) = {}
   \<and> current_phase (game_state (snd (pass_priority (snd (pass_priority
       (new_TimingRules (set_phase CLEANUP None started_game)) 1)) 2)))
     = Some CLEANUP
   \<and> turn_number (game_state (snd (pass_priority (snd (pass_priority
       (new_TimingRules (set_phase CLEANUP None started_game)) 1)) 2)))
     = turn_number started_game"
  by (simp add: started_game_eq new_TimingRules_def pass_priority_def set_phase_def
      all_players_passed_priority_def players_of_def new_PlayerState_def
      move_to_next_player_def resolve_priority_def advance_phase_cases Let_def)

section \<open>The legend rule (claim C5)\<close>

lemma get_player_Some_id: "get_player gs pid = Some player \<Longrightarrow> player_id player = pid"
  by (auto simp: get_player_def split: option.splits if_splits)






lemma all_cards_fields:
  "all_cards (gs\<lparr>status := st\<rparr>) = all_cards gs"
  "all_cards (gs\<lparr>turn_number := n\<rparr>) = all_cards gs"
  "all_cards (gs\<lparr>active_player := ap\<rparr>) = all_cards gs"
  "all_cards (gs\<lparr>priority_player := pp\<rparr>) = all_cards gs"
  "all_cards (set_phase phase step gs) = all_cards gs"
  by (simp_all add: all_cards_def set_phase_def)

lemma player_cards_flags:
  "player_cards (reset_turn_flags p) = player_cards p"
  "player_cards (p\<lparr>life_total := n\<rparr>) = player_cards p"
  "player_cards (p\<lparr>has_played_land_this_turn := b\<rparr>) = player_cards p"
  by (simp_all add: player_cards_def reset_turn_flags_def)

lemma all_cards_reset_both: "all_cards (reset_both gs) = all_cards gs"
  by (simp add: all_cards_def reset_both_def player_cards_flags split: option.splits)

lemma all_cards_end_turn: "all_cards (end_turn gs) = all_cards gs"
  by (simp add: end_turn_def next_turn_def all_cards_fields all_cards_reset_both)











text \<open>
  What the two entry points do with a card. \<open>can_play_card\<close> answers False for every
  card that has no \<open>type_line\<close>: the card is missing from the hand, or \<open>_is_legendary\<close>
  raises and the \<open>except\<close> answers. A PLAY\_CARD event for a card in the player's hand
  moves the card to the battlefield and consults neither, whatever the battlefield holds.
\<close>

lemma can_play_card_no_type_line: "type_line crd = None \<Longrightarrow> \<not> can_play_card gs crd player"
  by (simp add: can_play_card_def can_play_card_body_def check_card_specific_restrictions_def
      is_legendary_def)

lemma process_play_card_moves:
  assumes "get_player gs pid = Some player"
    and "hand_get_card (instance_id crd) (hand player) \<noteq> None"
  shows "process_event (PlayCardEvent pid crd) gs =
     (False, update_player gs pid
               (\<lambda>p. p\<lparr>hand := snd (hand_remove_card (instance_id crd) (hand p)),
                      battlefield := add_card crd (battlefield p)\<rparr>))"
  using assms
  by (auto simp: process_play_card_def hand_remove_card_def hand_get_card_def
      game_state_CardType_LAND_def Let_def split: option.splits)




section \<open>Land plays among the legal actions (claim C9)\<close>

text \<open>
  What holds of the claim. When every land in the hand carries a type line, the legal
  actions of the active player in the first main phase contain one play-land action
  per land card in hand; once a land has been played there is none, and
  \<open>is_action_legal\<close> rejects a play-land action.
\<close>

lemma land_actions_typed:
  "\<forall>c\<in>set cs. is_land c \<longrightarrow> type_line c \<noteq> None \<Longrightarrow>
     land_actions pid cs
       = Inr (map (\<lambda>land. PlayLandAction pid land (land_type_of land)) (filter is_land cs))"
  by (induction cs) (auto simp: is_land_def land_type_of_def get_land_type_def)

lemma not_play_land_spell: "a \<in> set (spell_actions player) \<Longrightarrow> action_type a \<noteq> PLAY_LAND"
  by (auto simp: spell_actions_def)

lemma not_play_land_ability: "a \<in> set (ability_actions player) \<Longrightarrow> action_type a \<noteq> PLAY_LAND"
  by (auto simp: ability_actions_def split: if_splits)

lemma not_play_land_always:
  "a \<in> set (generate_always_available_actions player) \<Longrightarrow> action_type a \<noteq> PLAY_LAND"
  by (auto simp: generate_always_available_actions_def)

lemma play_land_action_legal:
  assumes "is_game_active gs" "current_phase gs = Some FIRST_MAIN"
    and "get_player gs pid = Some player" "is_alive player"
    and "\<not> has_played_land_this_turn player"
    and "land \<in> set (cards (hand player))" "is_land land"
  shows "is_action_legal gs (PlayLandAction pid land lt)"
proof -
  from assms(6) have "find (\<lambda>crd. instance_id crd = instance_id land) (cards (hand player)) \<noteq> None"
    by (auto simp: find_None_iff)
  with assms show ?thesis
    by (simp add: is_action_legal_def is_action_legal_body_def validate_basic_requirements_def
        validate_timing_def validate_play_land_def validate_targets_def can_play_land_def
        hand_get_card_def is_land_def)
qed

lemma play_land_actions_with_type_line:
  assumes "is_game_active gs" "current_phase gs = Some FIRST_MAIN"
    and "active_player gs = Some pid"
    and "get_player gs pid = Some player" "is_alive player"
    and "\<not> has_played_land_this_turn player"
    and typed: "\<forall>c\<in>set (cards (hand player)). is_land c \<longrightarrow> type_line c \<noteq> None"
  shows "play_land_actions (generate_legal_actions gs pid)
     = map (\<lambda>land. PlayLandAction pid land (land_type_of land))
           (filter is_land (cards (hand player)))"
proof -
  let ?lands = "map (\<lambda>land. PlayLandAction pid land (land_type_of land))
                    (filter is_land (cards (hand player)))"
  let ?rest = "spell_actions player @ ability_actions player
               @ generate_always_available_actions player"
  have pid: "player_id player = pid"
    using assms(4) by (rule get_player_Some_id)
  have cand: "candidate_actions gs player True = Inr (?lands @ ?rest)"
    using assms(2,6) land_actions_typed [OF typed, of pid]
    by (simp add: candidate_actions_def generate_main_phase_actions_def can_play_land_def pid)
  have legal: "\<forall>a\<in>set ?lands. is_action_legal gs a \<and> action_type a = PLAY_LAND"
    using play_land_action_legal [OF assms(1,2,4,5,6)] by auto
  have rest: "\<forall>a\<in>set ?rest. action_type a \<noteq> PLAY_LAND"
    using not_play_land_spell not_play_land_ability not_play_land_always by auto
  have "play_land_actions (filter (is_action_legal gs) (?lands @ ?rest)) = ?lands"
  proof -
    have "filter (\<lambda>a. action_type a = PLAY_LAND) (filter (is_action_legal gs) ?lands) = ?lands"
      using legal by (simp add: filter_id_conv)
    moreover have "filter (\<lambda>a. action_type a = PLAY_LAND) (filter (is_action_legal gs) ?rest) = []"
      using rest by (simp add: filter_empty_conv)
    ultimately show ?thesis
      unfolding play_land_actions_def filter_append by simp
  qed
  then show ?thesis
    using assms(3,4) cand by (simp add: generate_legal_actions_def)
qed

lemma play_land_rejected_after_land_played:
  assumes "get_player gs pid = Some player" "has_played_land_this_turn player"
  shows "\<not> is_action_legal gs (PlayLandAction pid crd lt)"
  using assms
  by (simp add: is_action_legal_def is_action_legal_body_def validate_play_land_def
      can_play_land_def validate_timing_def)

lemma no_play_land_after_land_played:
  assumes "get_player gs pid = Some player" "has_played_land_this_turn player"
  shows "play_land_actions (generate_legal_actions gs pid) = []"
proof -
  have pid: "player_id player = pid"
    using assms(1) by (rule get_player_Some_id)
  have rej: "\<not> is_action_legal gs a" if "action_type a = PLAY_LAND" "action_player_id a = pid" for a
    using that play_land_rejected_after_land_played [OF assms]
    by (cases a) auto
  have own: "action_player_id a = pid"
    if "candidate_actions gs player b = Inr acts" "a \<in> set acts" for a acts b
    using that pid
    by (auto simp: candidate_actions_def generate_main_phase_actions_def can_play_land_def
        assms(2) spell_actions_def ability_actions_def generate_always_available_actions_def
        generate_combat_phase_actions_def generate_attack_actions_def generate_block_actions_def
        generate_damage_actions_def split: if_splits)
  show ?thesis
  proof (cases "candidate_actions gs player (active_player gs = Some pid)")
    case (Inl e)
    then show ?thesis
      using assms(1) by (simp add: play_land_actions_def generate_legal_actions_def)
  next
    case (Inr acts)
    have "\<forall>a\<in>set acts. action_type a = PLAY_LAND \<longrightarrow> \<not> is_action_legal gs a"
      using rej own [OF Inr] by blast
    then have "filter (\<lambda>a. action_type a = PLAY_LAND) (filter (is_action_legal gs) acts) = []"
      by (auto simp: filter_empty_conv)
    then show ?thesis
      using assms(1) Inr by (simp add: play_land_actions_def generate_legal_actions_def)
  qed
qed

text \<open>
  Where it fails: a land that has no \<open>type_line\<close> attribute. Building its
  \<open>PlayLandAction\<close> raises, and \<open>_generate_legal_actions\<close> answers with the empty list.
\<close>

lemma land_actions_untyped:
  "c \<in> set cs \<Longrightarrow> is_land c \<Longrightarrow> type_line c = None \<Longrightarrow>
     land_actions pid cs = Inl AttributeError"
proof (induction cs)
  case Nil
  then show ?case by simp
next
  case (Cons x xs)
  show ?case
  proof (cases "x = c")
    case True
    with Cons.prems show ?thesis by (simp add: is_land_def get_land_type_def)
  next
    case False
    with Cons have ih: "land_actions pid xs = Inl AttributeError" by simp
    show ?thesis
      by (cases "type_line x") (simp_all add: ih get_land_type_def)
  qed
qed

lemma no_actions_when_land_lacks_type_line:
  assumes "get_player gs pid = Some player"
    and "current_phase gs = Some FIRST_MAIN"
    and "active_player gs = Some pid"
    and "\<not> has_played_land_this_turn player"
    and "c \<in> set (cards (hand player))" "is_land c" "type_line c = None"
  shows "generate_legal_actions gs pid = []"
  using assms land_actions_untyped [OF assms(5-7), of "player_id player"]
  by (simp add: generate_legal_actions_def candidate_actions_def
      generate_main_phase_actions_def can_play_land_def)

text \<open>
  C9 at a concrete game: active, first main phase, player 1 active and alive with no
  land played this turn and exactly one land, Plains, in hand. The legal actions of
  player 1 are the empty list: no play-land action, and no pass or concede either.
\<close>

theorem land_in_hand_yields_no_actions:
  "is_game_active land_in_hand_game
   \<and> current_phase land_in_hand_game = Some FIRST_MAIN
   \<and> active_player land_in_hand_game = Some 1
   \<and> is_alive (the (get_player land_in_hand_game 1))
   \<and> \<not> has_played_land_this_turn (the (get_player land_in_hand_game 1))
   \<and> filter is_land (cards (hand (the (get_player land_in_hand_game 1)))) = [plains]
   \<and> generate_legal_actions land_in_hand_game 1 = []"
  by code_simp

end
